theory Spec2Isabelle
  imports Complex_Main "HOL-Library.Sublist"
begin

section \<open>JavaScript values used by the price editor\<close>

text \<open>
  A JavaScript \<open>number\<close> is an IEEE 754 double: \<open>NaN\<close>, one of the two infinities, or
  a finite value, kept here as the rational it denotes. Every operation that computes a
  new finite value rounds it to the nearest double, ties to the even significand, as
  \<open>roundDouble\<close> does; the sign of zero is not modelled. The operations below are the
  three the source applies to numbers: subtraction, \<open>Math.abs\<close> and the comparison
  \<open><\<close>, which is false as soon as one side is \<open>NaN\<close>.
\<close>

datatype number = NaN | NegInf | Fin rat | PosInf

definition pow2 :: "int \<Rightarrow> rat" where
  "pow2 e = (if 0 \<le> e then 2 ^ nat e else 1 / 2 ^ nat (- e))"

text \<open>The binary exponent of a positive rational, \<open>e\<close> with \<open>2^e \<le> a < 2^(e+1)\<close>, found
  by halving or doubling at most \<open>fuel\<close> times. A double has an exponent between -1074
  and 1023, so 1100 steps tell every case apart.\<close>

fun binaryExponent :: "nat \<Rightarrow> rat \<Rightarrow> int" where
  "binaryExponent 0 a = 0"
| "binaryExponent (Suc fuel) a =
     (if 2 \<le> a then binaryExponent fuel (a / 2) + 1
      else if a < 1 then binaryExponent fuel (a * 2) - 1
      else 0)"

definition roundHalfEven :: "rat \<Rightarrow> int" where
  "roundHalfEven q =
     (if q - of_int \<lfloor>q\<rfloor> < 1 / 2 then \<lfloor>q\<rfloor>
      else if 1 / 2 < q - of_int \<lfloor>q\<rfloor> then \<lfloor>q\<rfloor> + 1
      else if even \<lfloor>q\<rfloor> then \<lfloor>q\<rfloor> else \<lfloor>q\<rfloor> + 1)"

text \<open>Rounding to a multiple of the unit in the last place of the binade with exponent
  \<open>e\<close>, which is \<open>2^(e - 52)\<close>; in the last binade, rounding up to \<open>2^1024\<close> overflows.\<close>

definition roundToUlp :: "rat \<Rightarrow> int \<Rightarrow> number" where
  "roundToUlp a e =
     (if e = 1023 \<and> 2 ^ 53 \<le> roundHalfEven (a / pow2 (e - 52)) then PosInf
      else Fin (of_int (roundHalfEven (a / pow2 (e - 52))) * pow2 (e - 52)))"

text \<open>Below \<open>2^(-1022)\<close> the values are subnormal and spaced as in the first binade.\<close>

definition roundPositive :: "rat \<Rightarrow> number" where
  "roundPositive a =
     (if 1024 \<le> binaryExponent 1100 a then PosInf
      else if binaryExponent 1100 a < - 1022 then roundToUlp a (- 1022)
      else roundToUlp a (binaryExponent 1100 a))"

definition roundDouble :: "rat \<Rightarrow> number" where
  "roundDouble x =
     (if x = 0 then Fin 0
      else if 0 < x then roundPositive x
      else (case roundPositive (- x) of Fin r \<Rightarrow> Fin (- r) | _ \<Rightarrow> NegInf))"

fun num_sub :: "number \<Rightarrow> number \<Rightarrow> number" where
  "num_sub NaN _ = NaN"
| "num_sub _ NaN = NaN"
| "num_sub PosInf PosInf = NaN"
| "num_sub NegInf NegInf = NaN"
| "num_sub PosInf _ = PosInf"
| "num_sub NegInf _ = NegInf"
| "num_sub (Fin a) PosInf = NegInf"
| "num_sub (Fin a) NegInf = PosInf"
| "num_sub (Fin a) (Fin b) = roundDouble (a - b)"

fun num_abs :: "number \<Rightarrow> number" where
  "num_abs NaN = NaN"
| "num_abs NegInf = PosInf"
| "num_abs PosInf = PosInf"
| "num_abs (Fin a) = Fin \<bar>a\<bar>"

fun num_less :: "number \<Rightarrow> number \<Rightarrow> bool" where
  "num_less NaN _ = False"
| "num_less _ NaN = False"
| "num_less _ NegInf = False"
| "num_less NegInf _ = True"
| "num_less PosInf _ = False"
| "num_less (Fin a) PosInf = True"
| "num_less (Fin a) (Fin b) = (a < b)"

definition isNaN :: "number \<Rightarrow> bool" where
  "isNaN x = (x = NaN)"

subsection \<open>Strings\<close>

text \<open>
  A string is a list of code units; the model covers the code units below 256. The
  white space of \<open>String.prototype.trim\<close> and of \<open>parseFloat\<close> in that range is
  TAB, LF, VT, FF, CR, SPACE and NBSP.
\<close>

definition isWhiteSpace :: "char \<Rightarrow> bool" where
  "isWhiteSpace c = ((of_char c :: nat) \<in> {9, 10, 11, 12, 13, 32, 160})"

definition isDigit :: "char \<Rightarrow> bool" where
  "isDigit c = (48 \<le> (of_char c :: nat) \<and> (of_char c :: nat) \<le> 57)"

definition str_trim :: "string \<Rightarrow> string" where
  "str_trim s = rev (dropWhile isWhiteSpace (rev (dropWhile isWhiteSpace s)))"

text \<open>\<open>s.split(sep)\<close> for a one-character separator: the pieces between the separators,
  the empty pieces included, so that a string without separator is one piece.\<close>

fun splitAcc :: "char \<Rightarrow> string \<Rightarrow> string \<Rightarrow> string list" where
  "splitAcc sep cur [] = [rev cur]"
| "splitAcc sep cur (c # cs) =
     (if c = sep then rev cur # splitAcc sep [] cs else splitAcc sep (c # cur) cs)"

definition str_split :: "char \<Rightarrow> string \<Rightarrow> string list" where
  "str_split sep s = splitAcc sep [] s"

subsection \<open>\<open>parseFloat\<close>\<close>

text \<open>
  \<open>parseFloat\<close> skips leading white space and reads the longest prefix that is a
  decimal literal: an optional sign, then \<open>Infinity\<close>, or digits with an optional
  fraction and an optional exponent. What follows the prefix is ignored; without such a
  prefix the result is \<open>NaN\<close>. An exponent counts only when it has a digit. The result
  is the double nearest to the value the literal denotes, an infinity when it is out of
  range.
\<close>

fun digitsValue :: "nat \<Rightarrow> string \<Rightarrow> nat" where
  "digitsValue acc [] = acc"
| "digitsValue acc (c # cs) = digitsValue (10 * acc + (of_char c - 48)) cs"

definition scale10 :: "rat \<Rightarrow> int \<Rightarrow> rat" where
  "scale10 m e = (if 0 \<le> e then m * 10 ^ nat e else m / 10 ^ nat (- e))"

definition parseExponent :: "string \<Rightarrow> int" where
  "parseExponent r =
     (case r of
        [] \<Rightarrow> 0
      | c # r1 \<Rightarrow>
          if c = CHR ''e'' \<or> c = CHR ''E'' then
            (case r1 of
               [] \<Rightarrow> 0
             | s # r2 \<Rightarrow>
                 if s = CHR ''-'' then - int (digitsValue 0 (takeWhile isDigit r2))
                 else if s = CHR ''+'' then int (digitsValue 0 (takeWhile isDigit r2))
                 else int (digitsValue 0 (takeWhile isDigit r1)))
          else 0)"

definition parseUnsigned :: "string \<Rightarrow> rat option" where
  "parseUnsigned u =
     (let ip = takeWhile isDigit u;
          r1 = dropWhile isDigit u;
          fp = (case r1 of [] \<Rightarrow> [] | c # r \<Rightarrow> if c = CHR ''.'' then takeWhile isDigit r else []);
          r2 = (case r1 of [] \<Rightarrow> [] | c # r \<Rightarrow> if c = CHR ''.'' then dropWhile isDigit r else r1)
      in if ip = [] \<and> fp = [] then None
         else Some (scale10 (of_nat (digitsValue 0 (ip @ fp))) (parseExponent r2 - int (length fp))))"

definition parseFloat :: "string \<Rightarrow> number" where
  "parseFloat s =
     (let t = dropWhile isWhiteSpace s;
          neg = (case t of [] \<Rightarrow> False | c # _ \<Rightarrow> c = CHR ''-'');
          u = (case t of [] \<Rightarrow> [] | c # r \<Rightarrow> if c = CHR ''-'' \<or> c = CHR ''+'' then r else t)
      in if take 8 u = ''Infinity'' then (if neg then NegInf else PosInf)
         else (case parseUnsigned u of
                 None \<Rightarrow> NaN
               | Some q \<Rightarrow> roundDouble (if neg then - q else q)))"

section \<open>The bulk-edit dialog (\<open>BulkEditModal.tsx\<close>)\<close>

text \<open>What a \<open>throw\<close> carries: \<open>new Error(message)\<close>, or the \<open>TypeError\<close> the
  engine raises itself (a property read on \<open>undefined\<close>, a rejected \<open>fetch\<close>).\<close>

datatype error = Error string | TypeError string

fun message :: "error \<Rightarrow> string" where
  "message (Error m) = m"
| "message (TypeError m) = m"

record PricePointOption =
  pp_id :: string
  customerPrice :: string
  currency :: "string option"

subsection \<open>\<open>findClosestPricePoint\<close>\<close>

definition priceDiff :: "number \<Rightarrow> PricePointOption \<Rightarrow> number" where
  "priceDiff desiredPrice pp =
     num_abs (num_sub desiredPrice (parseFloat (customerPrice pp)))"

text \<open>The \<open>for\<close> loop over \<open>pricePoints\<close>, with the two variables it updates.\<close>

fun scanClosest ::
  "number \<Rightarrow> PricePointOption \<Rightarrow> number \<Rightarrow> PricePointOption list \<Rightarrow> PricePointOption"
where
  "scanClosest desiredPrice bestMatch bestDiff [] = bestMatch"
| "scanClosest desiredPrice bestMatch bestDiff (pp # pps) =
     (if num_less (priceDiff desiredPrice pp) bestDiff
      then scanClosest desiredPrice pp (priceDiff desiredPrice pp) pps
      else scanClosest desiredPrice bestMatch bestDiff pps)"

text \<open>On an empty array \<open>pricePoints[0]\<close> is \<open>undefined\<close>, and reading its
  \<open>customerPrice\<close> throws before the loop is reached.\<close>

definition findClosestPricePoint ::
  "number \<Rightarrow> PricePointOption list \<Rightarrow> error + PricePointOption"
where
  "findClosestPricePoint desiredPrice pricePoints =
     (case pricePoints of
        [] \<Rightarrow> Inl (TypeError ''Cannot read properties of undefined (reading customerPrice)'')
      | first # _ \<Rightarrow>
          Inr (scanClosest desiredPrice first (priceDiff desiredPrice first) pricePoints))"

subsection \<open>\<open>parseCsv\<close>\<close>

record TerritoryPriceInput =
  territory :: string
  desiredPrice :: number

text \<open>The \<open>for\<close> loop over the lines; \<open>result\<close> grows by \<open>push\<close>.\<close>

fun parseLines :: "string list \<Rightarrow> TerritoryPriceInput list \<Rightarrow> TerritoryPriceInput list" where
  "parseLines [] result = result"
| "parseLines (line # lines) result =
     (let parts = map str_trim (str_split CHR '','' line)
      in if length parts \<noteq> 2 then parseLines lines result
         else if \<not> isNaN (parseFloat (parts ! 1))
              then parseLines lines
                     (result @ [\<lparr>territory = parts ! 0, desiredPrice = parseFloat (parts ! 1)\<rparr>])
              else parseLines lines result)"

definition parseCsv :: "string \<Rightarrow> TerritoryPriceInput list" where
  "parseCsv text =
     parseLines (filter (\<lambda>line. line \<noteq> []) (map str_trim (str_split (CHR 0x0A) text))) []"

subsection \<open>The two requests of the dialog\<close>

text \<open>
  The dialog talks to the application's own route \<open>/api/appstore/prices\<close>. What the
  dialog does to the outside is recorded as a list of events, and the answer to a
  request may depend on everything that happened before it.
\<close>

datatype event =
    GetPricePoints string string
  | PostPrice string string string bool
  | Sleep nat
  | OnComplete

datatype 'a api_response = ApiFailed | ApiError "string option" | ApiOk 'a

record api =
  api_get :: "event list \<Rightarrow> string \<Rightarrow> string \<Rightarrow> PricePointOption list api_response"
  api_post :: "event list \<Rightarrow> string \<Rightarrow> string \<Rightarrow> string \<Rightarrow> bool \<Rightarrow> unit api_response"

text \<open>\<open>fetchPricePoints\<close>: every failure inside the \<open>try\<close> ends in \<open>return null\<close>.\<close>

definition fetchPricePoints ::
  "api \<Rightarrow> string \<Rightarrow> string \<Rightarrow> event list \<Rightarrow> PricePointOption list option \<times> event list"
where
  "fetchPricePoints a iapId terr tr =
     ((case api_get a tr iapId terr of
         ApiFailed \<Rightarrow> None
       | ApiError e \<Rightarrow> None
       | ApiOk pricePoints \<Rightarrow> Some pricePoints),
      tr @ [GetPricePoints iapId terr])"

text \<open>\<open>e.error || fallback\<close>: the fallback stands in for a missing or empty field.\<close>

definition orDefault :: "string option \<Rightarrow> string \<Rightarrow> string" where
  "orDefault e fallback = (case e of None \<Rightarrow> fallback | Some m \<Rightarrow> if m = [] then fallback else m)"

text \<open>\<open>updatePrice\<close> of the dialog (the route has a function of the same name).\<close>

definition modal_updatePrice ::
  "api \<Rightarrow> string \<Rightarrow> bool \<Rightarrow> string \<Rightarrow> string \<Rightarrow> event list \<Rightarrow> (error + unit) \<times> event list"
where
  "modal_updatePrice a iapId preserveCurrentPrice terr pricePointId tr =
     ((case api_post a tr iapId terr pricePointId preserveCurrentPrice of
         ApiFailed \<Rightarrow> Inl (TypeError ''Failed to fetch'')
       | ApiError e \<Rightarrow> Inl (Error (orDefault e ''Bulk price update failed''))
       | ApiOk _ \<Rightarrow> Inr ()),
      tr @ [PostPrice iapId terr pricePointId preserveCurrentPrice])"

subsection \<open>\<open>handleBulkEdit\<close>\<close>

text \<open>
  The state of the component. The status line and the entries of the error list are
  kept as the values their template literals interpolate; \<open>renderError\<close> is the
  literal \<open>`${territory} => ${desiredPrice}: ${err?.message}`\<close>, given the conversion
  of a number to a string.
\<close>

datatype status =
    Parsing | NoValidLines | Starting | Processing nat nat string | Complete

datatype error_line = ErrorLine string number string

fun renderError :: "(number \<Rightarrow> string) \<Rightarrow> error_line \<Rightarrow> string" where
  "renderError toString (ErrorLine terr price msg) =
     terr @ '' => '' @ toString price @ '': '' @ msg"

record modal =
  status :: "status option"
  errors :: "error_line list"
  inProgress :: bool
  doneCount :: nat
  totalCount :: nat
  trace :: "event list"

text \<open>The body of the \<open>try\<close> block after \<open>setStatus\<close>: the error thrown, or
  success after the delay, which is its last statement. Writes to the console are left
  out of the events.\<close>

definition tryLine ::
  "api \<Rightarrow> string \<Rightarrow> bool \<Rightarrow> TerritoryPriceInput \<Rightarrow> event list \<Rightarrow> (error + unit) \<times> event list"
where
  "tryLine a iapId preserveCurrentPrice inp tr =
     (case fetchPricePoints a iapId (territory inp) tr of
        (None, tr1) \<Rightarrow>
          (Inl (Error (''No price points found for territory '' @ territory inp)), tr1)
      | (Some pricePoints, tr1) \<Rightarrow>
          if length pricePoints = 0
          then (Inl (Error (''No price points found for territory '' @ territory inp)), tr1)
          else (case findClosestPricePoint (desiredPrice inp) pricePoints of
                  Inl e \<Rightarrow> (Inl e, tr1)
                | Inr bestMatch \<Rightarrow>
                    (case modal_updatePrice a iapId preserveCurrentPrice (territory inp)
                            (pp_id bestMatch) tr1 of
                       (Inl e, tr2) \<Rightarrow> (Inl e, tr2)
                     | (Inr _, tr2) \<Rightarrow> (Inr (), tr2 @ [Sleep 1000]))))"

text \<open>One pass of the loop body, \<open>catch\<close> included.\<close>

definition bulkIteration ::
  "api \<Rightarrow> string \<Rightarrow> bool \<Rightarrow> nat \<Rightarrow> nat \<Rightarrow> TerritoryPriceInput \<Rightarrow> modal \<Rightarrow> modal"
where
  "bulkIteration a iapId preserveCurrentPrice n i inp st =
     (case tryLine a iapId preserveCurrentPrice inp (trace st) of
        (Inr _, tr) \<Rightarrow>
          st\<lparr>status := Some (Processing (i + 1) n (territory inp)),
             doneCount := doneCount st + 1,
             trace := tr\<rparr>
      | (Inl err, tr) \<Rightarrow>
          st\<lparr>status := Some (Processing (i + 1) n (territory inp)),
             errors := errors st @ [ErrorLine (territory inp) (desiredPrice inp) (message err)],
             trace := tr\<rparr>)"

fun bulkLoop ::
  "api \<Rightarrow> string \<Rightarrow> bool \<Rightarrow> nat \<Rightarrow> nat \<Rightarrow> TerritoryPriceInput list \<Rightarrow> modal \<Rightarrow> modal"
where
  "bulkLoop a iapId preserveCurrentPrice n i [] st = st"
| "bulkLoop a iapId preserveCurrentPrice n i (inp # inps) st =
     bulkLoop a iapId preserveCurrentPrice n (i + 1) inps
       (bulkIteration a iapId preserveCurrentPrice n i inp st)"

definition handleBulkEdit :: "api \<Rightarrow> string \<Rightarrow> string \<Rightarrow> bool \<Rightarrow> modal \<Rightarrow> modal" where
  "handleBulkEdit a iapId csvText preserveCurrentPrice st =
     (let inputs = parseCsv csvText;
          st1 = st\<lparr>inProgress := True, status := Some Parsing, errors := [], doneCount := 0,
                   totalCount := length inputs\<rparr>
      in if length inputs = 0
         then st1\<lparr>status := Some NoValidLines, inProgress := False\<rparr>
         else let st2 = bulkLoop a iapId preserveCurrentPrice (length inputs) 0 inputs
                          (st1\<lparr>status := Some Starting\<rparr>)
              in st2\<lparr>inProgress := False, status := Some Complete,
                     trace := trace st2 @ [OnComplete]\<rparr>)"

text \<open>The state of a dialog that has just been opened.\<close>

definition initialModal :: modal where
  "initialModal =
     \<lparr>status = None, errors = [], inProgress = False, doneCount = 0, totalCount = 0,
      trace = []\<rparr>"

section \<open>The route \<open>/api/appstore/prices\<close>\<close>

subsection \<open>The vendor\<close>

text \<open>
  A \<open>fetch\<close> either rejects, or resolves to a response that is not \<open>ok\<close> (with its
  status and its text) or to one that is, of which the model keeps the decoded body.
  The vendor is the answers it gives: to the three reads of the resolution by the
  identifier asked for, to the reads of price points and prices by URL, to the write by
  URL and payload. The identifier of the application is configuration and is part of
  the vendor here. A body is well formed: every field the source reads is there.
\<close>

type_synonym json = string

datatype 'a response = FetchFailed | NotOk nat string | Ok 'a

record inAppPurchase =
  iap_productId :: string
  inAppPurchaseType :: string

record subscription =
  sub_id :: string
  sub_productId :: string

record pricePoint =
  point_id :: string
  point_customerPrice :: string
  point_currency :: "string option"
  point_territoryCurrency :: "string option"

record pricePointsPage =
  page_data :: "pricePoint list"
  links_next :: "string option"

record pricesBody =
  prices_data :: "json list option"
  prices_included :: "json list option"

datatype payload =
    SubscriptionPrices
      (sp_startDate: string) (sp_preserveCurrentPrice: bool)
      (sp_subscription: string) (sp_subscriptionPricePoint: string)
  | InAppPurchasePrices
      (ip_startDate: string) (ip_territory: string) (ip_pricePoint: string)

datatype request =
    GetInAppPurchase string
  | GetSubscriptionGroups
  | GetSubscriptions string
  | GetPricePointsAt string
  | GetPricesAt string
  | PostPrices string payload

record vendor =
  inAppPurchases :: "string \<Rightarrow> inAppPurchase response"
  subscriptionGroups :: "string list response"
  subscriptions :: "string \<Rightarrow> subscription list response"
  pricePointsAt :: "string \<Rightarrow> pricePointsPage response"
  pricesAt :: "string \<Rightarrow> pricesBody response"
  createPrice :: "string \<Rightarrow> payload \<Rightarrow> json response"

text \<open>A function of the route returns what it returns or throws, and the requests it
  has made, in order.\<close>

type_synonym 'a outcome = "(error + 'a) \<times> request list"

definition logged :: "request list \<Rightarrow> 'a outcome \<Rightarrow> 'a outcome" where
  "logged earlier r = (fst r, earlier @ snd r)"

definition fetchRejected :: error where
  "fetchRejected = TypeError ''fetch failed''"

subsection \<open>Integers in template literals\<close>

definition digitChar :: "nat \<Rightarrow> char" where
  "digitChar k = ''0123456789'' ! k"

fun showNat :: "nat \<Rightarrow> string" where
  "showNat n = (if n < 10 then [digitChar n] else showNat (n div 10) @ [digitChar (n mod 10)])"

declare showNat.simps [simp del]

subsection \<open>The scan of the subscription groups\<close>

text \<open>
  The \<open>for (const group of groupsData.data)\<close> loop, which the three functions below
  share word for word: a group whose list of subscriptions does not come back \<open>ok\<close>
  is passed over by \<open>continue\<close>, the first subscription with the product identifier
  ends the loop by \<open>break\<close>. The result is \<open>matchingSub\<close> of the last pass.
\<close>

fun scanGroups :: "vendor \<Rightarrow> string \<Rightarrow> string list \<Rightarrow> subscription option outcome" where
  "scanGroups v productId [] = (Inr None, [])"
| "scanGroups v productId (grp # groups) =
     (case subscriptions v grp of
        FetchFailed \<Rightarrow> (Inl fetchRejected, [GetSubscriptions grp])
      | NotOk st txt \<Rightarrow> logged [GetSubscriptions grp] (scanGroups v productId groups)
      | Ok subs \<Rightarrow>
          (case find (\<lambda>sub. sub_productId sub = productId) subs of
             Some matchingSub \<Rightarrow> (Inr (Some matchingSub), [GetSubscriptions grp])
           | None \<Rightarrow> logged [GetSubscriptions grp] (scanGroups v productId groups)))"

definition autoRenewable :: string where
  "autoRenewable = ''AUTOMATICALLY_RENEWABLE_SUBSCRIPTION''"

definition notFound :: error where
  "notFound = Error ''Could not find associated subscription for this IAP''"

definition vendorApi :: string where
  "vendorApi = ''https://api.appstoreconnect.apple.com/v1/''"

subsection \<open>\<open>getCurrentPrices\<close>\<close>

text \<open>The values of \<open>resourceId\<close> and \<open>resourceType\<close> after the \<open>if\<close> that
  handles subscriptions. Both start as for a one-time purchase and are assigned in the
  loop on a match; the check after the loop reads \<open>resourceId\<close>.\<close>

definition getCurrentPrices_resource ::
  "vendor \<Rightarrow> string \<Rightarrow> inAppPurchase \<Rightarrow> (string \<times> string) outcome"
where
  "getCurrentPrices_resource v iapId iapData =
     (if inAppPurchaseType iapData = autoRenewable then
        (case subscriptionGroups v of
           FetchFailed \<Rightarrow> (Inl fetchRejected, [GetSubscriptionGroups])
         | NotOk st txt \<Rightarrow>
             (Inl (Error (''Failed to fetch subscription groups: '' @ showNat st @ '' '' @ txt)),
              [GetSubscriptionGroups])
         | Ok groups \<Rightarrow>
             logged [GetSubscriptionGroups]
               (case scanGroups v (iap_productId iapData) groups of
                  (Inl e, reqs) \<Rightarrow> (Inl e, reqs)
                | (Inr matchingSub, reqs) \<Rightarrow>
                    (let resourceId = (case matchingSub of None \<Rightarrow> iapId | Some sub \<Rightarrow> sub_id sub);
                         resourceType = (case matchingSub of None \<Rightarrow> ''inAppPurchases''
                                         | Some sub \<Rightarrow> ''subscriptions'')
                     in if resourceId = [] then (Inl notFound, reqs)
                        else (Inr (resourceId, resourceType), reqs))))
      else (Inr (iapId, ''inAppPurchases''), []))"

definition pricesUrl :: "string \<Rightarrow> string \<Rightarrow> string" where
  "pricesUrl resourceType resourceId =
     (if resourceType = ''subscriptions''
      then vendorApi @ ''subscriptions/'' @ resourceId
             @ ''/prices?include=subscriptionPricePoint,territory&limit=200''
      else vendorApi @ ''inAppPurchases/'' @ resourceId
             @ ''/prices?include=inAppPurchasePricePoint,territory&limit=200'')"

definition orEmpty :: "'a list option \<Rightarrow> 'a list" where
  "orEmpty xs = (case xs of None \<Rightarrow> [] | Some ys \<Rightarrow> ys)"

definition getCurrentPrices ::
  "vendor \<Rightarrow> string \<Rightarrow> (json list \<times> json list \<times> string) outcome"
where
  "getCurrentPrices v iapId =
     (case inAppPurchases v iapId of
        FetchFailed \<Rightarrow> (Inl fetchRejected, [GetInAppPurchase iapId])
      | NotOk st txt \<Rightarrow>
          (Inl (Error (''Failed to fetch IAP details: '' @ showNat st @ '' '' @ txt)),
           [GetInAppPurchase iapId])
      | Ok iapData \<Rightarrow>
          logged [GetInAppPurchase iapId]
            (case getCurrentPrices_resource v iapId iapData of
               (Inl e, reqs) \<Rightarrow> (Inl e, reqs)
             | (Inr (resourceId, resourceType), reqs) \<Rightarrow>
                 logged (reqs @ [GetPricesAt (pricesUrl resourceType resourceId)])
                   (case pricesAt v (pricesUrl resourceType resourceId) of
                      FetchFailed \<Rightarrow> (Inl fetchRejected, [])
                    | NotOk st txt \<Rightarrow>
                        (Inl (Error (''Failed to fetch current prices: '' @ showNat st
                                       @ '' '' @ txt)), [])
                    | Ok priceData \<Rightarrow>
                        (Inr (orEmpty (prices_data priceData),
                              orEmpty (prices_included priceData),
                              inAppPurchaseType iapData), []))))"

subsection \<open>\<open>fetchPricePointsForIAPAndTerritory\<close>\<close>

text \<open>The value of \<open>resourceId\<close> after the \<open>if (isSubscription)\<close>; nothing is
  checked after the loop.\<close>

definition fetchPricePoints_resourceId ::
  "vendor \<Rightarrow> string \<Rightarrow> inAppPurchase \<Rightarrow> string outcome"
where
  "fetchPricePoints_resourceId v iapId iapData =
     (if inAppPurchaseType iapData = autoRenewable then
        (case subscriptionGroups v of
           FetchFailed \<Rightarrow> (Inl fetchRejected, [GetSubscriptionGroups])
         | NotOk st txt \<Rightarrow>
             (Inl (Error ''Failed to fetch subscription groups''), [GetSubscriptionGroups])
         | Ok groups \<Rightarrow>
             logged [GetSubscriptionGroups]
               (case scanGroups v (iap_productId iapData) groups of
                  (Inl e, reqs) \<Rightarrow> (Inl e, reqs)
                | (Inr matchingSub, reqs) \<Rightarrow>
                    (Inr (case matchingSub of None \<Rightarrow> iapId | Some sub \<Rightarrow> sub_id sub), reqs)))
      else (Inr iapId, []))"

definition pricePointsUrl :: "bool \<Rightarrow> string \<Rightarrow> string \<Rightarrow> string \<Rightarrow> string" where
  "pricePointsUrl isSubscription resourceId iapId terr =
     (if isSubscription
      then vendorApi @ ''subscriptions/'' @ resourceId @ ''/pricePoints?filter[territory]='' @ terr
             @ ''&limit=200''
      else vendorApi @ ''inAppPurchases/'' @ iapId @ ''/pricePoints?filter[territory]='' @ terr
             @ ''&limit=200'')"

text \<open>The \<open>while (nextUrl)\<close> loop. Nothing bounds the number of pages, so the loop
  is a partial function: \<open>None\<close> is a loop that does not end. An absent link and an
  empty one both end it.\<close>

partial_function (option) followNext ::
  "vendor \<Rightarrow> string option \<Rightarrow> pricePoint list \<Rightarrow> request list \<Rightarrow> (pricePoint list outcome) option"
where
  "followNext v nextUrl allPricePoints reqs =
     (case nextUrl of
        None \<Rightarrow> Some (Inr allPricePoints, reqs)
      | Some url \<Rightarrow>
          if url = [] then Some (Inr allPricePoints, reqs)
          else (case pricePointsAt v url of
                  FetchFailed \<Rightarrow> Some (Inl fetchRejected, reqs @ [GetPricePointsAt url])
                | NotOk st txt \<Rightarrow> Some (Inr allPricePoints, reqs @ [GetPricePointsAt url])
                | Ok nextData \<Rightarrow>
                    followNext v (links_next nextData) (allPricePoints @ page_data nextData)
                      (reqs @ [GetPricePointsAt url])))"

declare followNext.simps [code]

definition orElse :: "string option \<Rightarrow> string option \<Rightarrow> string option" where
  "orElse a b = (case a of None \<Rightarrow> b | Some x \<Rightarrow> if x = [] then b else Some x)"

definition toOption :: "pricePoint \<Rightarrow> PricePointOption" where
  "toOption pp =
     \<lparr>pp_id = point_id pp, customerPrice = point_customerPrice pp,
      currency = orElse (point_currency pp) (point_territoryCurrency pp)\<rparr>"

definition fetchPricePointsForIAPAndTerritory ::
  "vendor \<Rightarrow> string \<Rightarrow> string \<Rightarrow> (PricePointOption list outcome) option"
where
  "fetchPricePointsForIAPAndTerritory v iapId terr =
     (case inAppPurchases v iapId of
        FetchFailed \<Rightarrow> Some (Inl fetchRejected, [GetInAppPurchase iapId])
      | NotOk st txt \<Rightarrow> Some (Inl (Error ''Failed to fetch IAP details''), [GetInAppPurchase iapId])
      | Ok iapData \<Rightarrow>
          (case fetchPricePoints_resourceId v iapId iapData of
             (Inl e, reqs) \<Rightarrow> Some (Inl e, GetInAppPurchase iapId # reqs)
           | (Inr resourceId, reqs) \<Rightarrow>
               (let endpoint = pricePointsUrl (inAppPurchaseType iapData = autoRenewable)
                                 resourceId iapId terr;
                    reqs1 = GetInAppPurchase iapId # reqs @ [GetPricePointsAt endpoint]
                in case pricePointsAt v endpoint of
                     FetchFailed \<Rightarrow> Some (Inl fetchRejected, reqs1)
                   | NotOk st txt \<Rightarrow>
                       Some (Inl (Error (''Failed to fetch price points: '' @ showNat st)), reqs1)
                   | Ok data \<Rightarrow>
                       (case followNext v (links_next data) (page_data data) reqs1 of
                          None \<Rightarrow> None
                        | Some (Inl e, reqs2) \<Rightarrow> Some (Inl e, reqs2)
                        | Some (Inr allPricePoints, reqs2) \<Rightarrow>
                            Some (Inr (map toOption allPricePoints), reqs2)))))"

subsection \<open>The start date\<close>

text \<open>
  A \<open>Date\<close> is its time value, the milliseconds since the epoch. \<open>toISOString\<close>
  prints the UTC date and time of day; the civil date of a day number is computed as
  in the era-based algorithm for the proleptic Gregorian calendar. The host gives the
  time of the call and its time zone, as the offset of local time from UTC in
  milliseconds: the offset in force at a UTC time, and the offset in force at a local
  time. Time values stay far from the two ends of the range of \<open>Date\<close>.
\<close>

record clock =
  timeValue :: int
  offsetAtUTC :: "int \<Rightarrow> int"
  offsetAtLocal :: "int \<Rightarrow> int"

definition msPerDay :: int where
  "msPerDay = 86400000"

definition civilFromDays :: "int \<Rightarrow> int \<times> int \<times> int" where
  "civilFromDays days =
     (let z = days + 719468;
          era = z div 146097;
          doe = z mod 146097;
          yoe = (doe - doe div 1460 + doe div 36524 - doe div 146096) div 365;
          doy = doe - (365 * yoe + yoe div 4 - yoe div 100);
          mp = (5 * doy + 2) div 153;
          d = doy - (153 * mp + 2) div 5 + 1;
          m = (if mp < 10 then mp + 3 else mp - 9);
          y = yoe + era * 400 + (if m \<le> 2 then 1 else 0)
      in (y, m, d))"

definition pad :: "nat \<Rightarrow> string \<Rightarrow> string" where
  "pad k s = replicate (k - length s) (CHR ''0'') @ s"

definition isoYear :: "int \<Rightarrow> string" where
  "isoYear y =
     (if 0 \<le> y \<and> y \<le> 9999 then pad 4 (showNat (nat y))
      else (if y < 0 then ''-'' else ''+'') @ pad 6 (showNat (nat \<bar>y\<bar>)))"

definition isoDate :: "int \<Rightarrow> string" where
  "isoDate days =
     (case civilFromDays days of
        (y, m, d) \<Rightarrow> isoYear y @ ''-'' @ pad 2 (showNat (nat m)) @ ''-'' @ pad 2 (showNat (nat d)))"

definition isoTime :: "int \<Rightarrow> string" where
  "isoTime ms =
     pad 2 (showNat (nat (ms div 3600000))) @ '':''
     @ pad 2 (showNat (nat (ms div 60000 mod 60))) @ '':''
     @ pad 2 (showNat (nat (ms div 1000 mod 60))) @ ''.''
     @ pad 3 (showNat (nat (ms mod 1000))) @ ''Z''"

definition toISOString :: "int \<Rightarrow> string" where
  "toISOString t = isoDate (t div msPerDay) @ ''T'' @ isoTime (t mod msPerDay)"

text \<open>\<open>new Date()\<close> followed by \<open>setDate(getDate() + 2)\<close>: the local time of the
  call, moved two calendar days ahead at the same local time of day, and taken back to
  UTC with the offset in force at that local time.\<close>

definition localTime :: "clock \<Rightarrow> int" where
  "localTime c = timeValue c + offsetAtUTC c (timeValue c)"

definition startTime :: "clock \<Rightarrow> int" where
  "startTime c =
     localTime c + 2 * msPerDay - offsetAtLocal c (localTime c + 2 * msPerDay)"

definition formattedStartDate :: "clock \<Rightarrow> string" where
  "formattedStartDate c = str_split (CHR ''T'') (toISOString (startTime c)) ! 0"

subsection \<open>\<open>updatePrice\<close>\<close>

text \<open>The value of \<open>subscriptionId\<close> after the \<open>if (isSubscription)\<close>: it starts
  empty, is assigned on a match, and the check after the loop reads it.\<close>

definition updatePrice_subscriptionId :: "vendor \<Rightarrow> inAppPurchase \<Rightarrow> string outcome" where
  "updatePrice_subscriptionId v iapData =
     (if inAppPurchaseType iapData = autoRenewable then
        (case subscriptionGroups v of
           FetchFailed \<Rightarrow> (Inl fetchRejected, [GetSubscriptionGroups])
         | NotOk st txt \<Rightarrow>
             (Inl (Error (''Failed to fetch subscription groups: '' @ showNat st @ '' '' @ txt)),
              [GetSubscriptionGroups])
         | Ok groups \<Rightarrow>
             logged [GetSubscriptionGroups]
               (case scanGroups v (iap_productId iapData) groups of
                  (Inl e, reqs) \<Rightarrow> (Inl e, reqs)
                | (Inr matchingSub, reqs) \<Rightarrow>
                    (let subscriptionId = (case matchingSub of None \<Rightarrow> [] | Some sub \<Rightarrow> sub_id sub)
                     in if subscriptionId = [] then (Inl notFound, reqs)
                        else (Inr subscriptionId, reqs))))
      else (Inr [], []))"

definition priceEndpoint :: "bool \<Rightarrow> string \<Rightarrow> string" where
  "priceEndpoint isSubscription iapId =
     (if isSubscription then vendorApi @ ''subscriptionPrices''
      else vendorApi @ ''inAppPurchases/'' @ iapId @ ''/prices'')"

definition pricePayload ::
  "bool \<Rightarrow> string \<Rightarrow> bool \<Rightarrow> string \<Rightarrow> string \<Rightarrow> string \<Rightarrow> payload"
where
  "pricePayload isSubscription startDate preserveCurrentPrice subscriptionId terr pricePointId =
     (if isSubscription
      then SubscriptionPrices startDate preserveCurrentPrice subscriptionId pricePointId
      else InAppPurchasePrices startDate terr pricePointId)"

definition updatePrice ::
  "vendor \<Rightarrow> clock \<Rightarrow> string \<Rightarrow> string \<Rightarrow> string \<Rightarrow> bool \<Rightarrow> json outcome"
where
  "updatePrice v now iapId terr pricePointId preserveCurrentPrice =
     (case inAppPurchases v iapId of
        FetchFailed \<Rightarrow> (Inl fetchRejected, [GetInAppPurchase iapId])
      | NotOk st txt \<Rightarrow>
          (Inl (Error (''Failed to fetch IAP details: '' @ showNat st @ '' '' @ txt)),
           [GetInAppPurchase iapId])
      | Ok iapData \<Rightarrow>
          logged [GetInAppPurchase iapId]
            (case updatePrice_subscriptionId v iapData of
               (Inl e, reqs) \<Rightarrow> (Inl e, reqs)
             | (Inr subscriptionId, reqs) \<Rightarrow>
                 (let isSubscription = (inAppPurchaseType iapData = autoRenewable);
                      endpoint = priceEndpoint isSubscription iapId;
                      body = pricePayload isSubscription (formattedStartDate now)
                               preserveCurrentPrice subscriptionId terr pricePointId
                  in logged (reqs @ [PostPrices endpoint body])
                       (case createPrice v endpoint body of
                          FetchFailed \<Rightarrow> (Inl fetchRejected, [])
                        | NotOk st txt \<Rightarrow>
                            (Inl (Error (''Failed to update price: '' @ showNat st @ '' '' @ txt)),
                             [])
                        | Ok result \<Rightarrow> (Inr result, [])))))"

section \<open>Notions of the specification\<close>

text \<open>The lines the parser looks at, the fields of a line, and the lines it keeps,
  written as the specification describes them.\<close>

definition csvLines :: "string \<Rightarrow> string list" where
  "csvLines text = filter (\<lambda>line. line \<noteq> []) (map str_trim (str_split (CHR 0x0A) text))"

definition fields :: "string \<Rightarrow> string list" where
  "fields line = map str_trim (str_split CHR '','' line)"

definition validLine :: "string \<Rightarrow> bool" where
  "validLine line = (length (fields line) = 2 \<and> parseFloat (fields line ! 1) \<noteq> NaN)"

definition lineInput :: "string \<Rightarrow> TerritoryPriceInput" where
  "lineInput line = \<lparr>territory = fields line ! 0, desiredPrice = parseFloat (fields line ! 1)\<rparr>"



text \<open>The writes among the requests of a call.\<close>

fun isPost :: "request \<Rightarrow> bool" where
  "isPost (PostPrices _ _) = True"
| "isPost _ = False"

text \<open>A group that yields no match: its list does not come back \<open>ok\<close>, or comes back
  without a subscription of the product identifier.\<close>

fun noMatch :: "vendor \<Rightarrow> string \<Rightarrow> string \<Rightarrow> bool" where
  "noMatch v productId grp =
     (case subscriptions v grp of
        FetchFailed \<Rightarrow> False
      | NotOk st txt \<Rightarrow> True
      | Ok subs \<Rightarrow> find (\<lambda>sub. sub_productId sub = productId) subs = None)"

text \<open>Pages linked by \<open>next\<close>: starting from the link \<open>nextUrl\<close>, the vendor serves the
  given pages one after the other, and the link after the last of them is \<open>final\<close>.\<close>

fun linked :: "vendor \<Rightarrow> string option \<Rightarrow> (string \<times> pricePointsPage) list \<Rightarrow> string option \<Rightarrow> bool" where
  "linked v nextUrl [] final = (nextUrl = final)"
| "linked v nextUrl ((url, page) # rest) final =
     (nextUrl = Some url \<and> url \<noteq> [] \<and> pricePointsAt v url = Ok page
      \<and> linked v (links_next page) rest final)"

definition noFurtherPage :: "string option \<Rightarrow> bool" where
  "noFurtherPage nextUrl = (nextUrl = None \<or> nextUrl = Some [])"

section \<open>Example data\<close>

text \<open>Two candidates at the same distance from 9.50; a route that has no price point
  for the territory \<open>XX\<close>, and one that fails for it.\<close>

definition exampleCandidates :: "PricePointOption list" where
  "exampleCandidates =
     [\<lparr>pp_id = ''pp-900'', customerPrice = ''9.00'', currency = Some ''USD''\<rparr>,
      \<lparr>pp_id = ''pp-1000'', customerPrice = ''10.00'', currency = Some ''USD''\<rparr>]"

definition exampleApi :: api where
  "exampleApi =
     \<lparr>api_get = (\<lambda>tr iapId terr. if terr = ''XX'' then ApiOk [] else ApiOk exampleCandidates),
      api_post = (\<lambda>tr iapId terr pricePointId preserveCurrentPrice. ApiOk ())\<rparr>"

definition failingApi :: api where
  "failingApi =
     \<lparr>api_get = (\<lambda>tr iapId terr. if terr = ''XX'' then ApiError (Some ''Error: Failed to fetch IAP details'')
                                  else ApiOk exampleCandidates),
      api_post = (\<lambda>tr iapId terr pricePointId preserveCurrentPrice. ApiOk ())\<rparr>"

text \<open>Three parsed lines, the text they come from, the state in which the loop
  starts on \<open>n\<close> lines, and the text of the tolerant-parsing example.\<close>

definition lineUS :: TerritoryPriceInput where
  "lineUS = \<lparr>territory = ''US'', desiredPrice = roundDouble (999 / 100)\<rparr>"

definition lineXX :: TerritoryPriceInput where
  "lineXX = \<lparr>territory = ''XX'', desiredPrice = Fin 5\<rparr>"

definition lineCA :: TerritoryPriceInput where
  "lineCA = \<lparr>territory = ''CA'', desiredPrice = roundDouble (1049 / 100)\<rparr>"

definition exampleCsv :: string where
  "exampleCsv = ''US, 9.99\<newline>XX, 5\<newline>CA,10.49''"

definition started :: "nat \<Rightarrow> modal" where
  "started n = initialModal\<lparr>inProgress := True, status := Some Starting, totalCount := n\<rparr>"

definition tolerantCsv :: string where
  "tolerantCsv = ''US, 9.99\<newline>CA,10.49\<newline>\<newline>badline\<newline>GB, 8.99''"

text \<open>A vendor with three subscription groups, the second of which holds the monthly
  subscription, and with three pages of price points for the one-time purchase
  \<open>coins\<close> in \<open>USA\<close>. The answer for the first group and the answer for the third
  page are left open. The product \<open>orphan\<close> is declared a subscription that no group
  holds.\<close>

definition monthlySub :: subscription where
  "monthlySub = \<lparr>sub_id = ''sub-monthly'', sub_productId = ''com.app.monthly''\<rparr>"

definition exampleSubscriptions ::
  "subscription list response \<Rightarrow> string \<Rightarrow> subscription list response"
where
  "exampleSubscriptions first grp =
     (if grp = ''g1'' then first
      else if grp = ''g2''
        then Ok [\<lparr>sub_id = ''sub-yearly'', sub_productId = ''com.app.yearly''\<rparr>, monthlySub]
      else Ok [\<lparr>sub_id = ''sub-other'', sub_productId = ''com.app.other''\<rparr>])"

definition examplePurchases :: "string \<Rightarrow> inAppPurchase response" where
  "examplePurchases iapId =
     (if iapId = ''monthly''
        then Ok \<lparr>iap_productId = ''com.app.monthly'', inAppPurchaseType = autoRenewable\<rparr>
      else if iapId = ''orphan''
        then Ok \<lparr>iap_productId = ''com.app.orphan'', inAppPurchaseType = autoRenewable\<rparr>
      else Ok \<lparr>iap_productId = ''com.app.'' @ iapId, inAppPurchaseType = ''CONSUMABLE''\<rparr>)"

definition mkPoint :: "nat \<Rightarrow> pricePoint" where
  "mkPoint k =
     \<lparr>point_id = showNat k, point_customerPrice = showNat k @ ''.99'',
      point_currency = Some ''USD'', point_territoryCurrency = None\<rparr>"

definition somePoints :: "nat \<Rightarrow> nat \<Rightarrow> pricePoint list" where
  "somePoints lo hi = map mkPoint [lo..<hi]"

definition page1 :: pricePointsPage where
  "page1 = \<lparr>page_data = somePoints 0 200, links_next = Some ''https://next/2''\<rparr>"

definition page2 :: pricePointsPage where
  "page2 = \<lparr>page_data = somePoints 200 400, links_next = Some ''https://next/3''\<rparr>"

definition page3 :: pricePointsPage where
  "page3 = \<lparr>page_data = somePoints 400 450, links_next = None\<rparr>"

definition coinsUrl :: string where
  "coinsUrl = pricePointsUrl False ''coins'' ''coins'' ''USA''"

definition examplePages :: "pricePointsPage response \<Rightarrow> string \<Rightarrow> pricePointsPage response" where
  "examplePages third url =
     (if url = coinsUrl then Ok page1
      else if url = ''https://next/2'' then Ok page2
      else if url = ''https://next/3'' then third
      else Ok \<lparr>page_data = [], links_next = None\<rparr>)"

definition exampleVendor ::
  "subscription list response \<Rightarrow> pricePointsPage response \<Rightarrow> vendor"
where
  "exampleVendor first third =
     \<lparr>inAppPurchases = examplePurchases,
      subscriptionGroups = Ok [''g1'', ''g2'', ''g3''],
      subscriptions = exampleSubscriptions first,
      pricePointsAt = examplePages third,
      pricesAt = (\<lambda>url. Ok \<lparr>prices_data = Some [], prices_included = None\<rparr>),
      createPrice = (\<lambda>url body. Ok ''{}'')\<rparr>"

definition plainVendor :: vendor where
  "plainVendor = exampleVendor (Ok []) (Ok page3)"

text \<open>A host on UTC at noon of 29 February 2024, and a host in New York (five hours
  behind UTC, four from 10 March 2024, 2 o'clock local time) at 00:30 UTC of 9 March
  2024.\<close>

definition leapNoon :: clock where
  "leapNoon = \<lparr>timeValue = 1709208000000, offsetAtUTC = (\<lambda>t. 0), offsetAtLocal = (\<lambda>t. 0)\<rparr>"

definition newYorkEvening :: clock where
  "newYorkEvening =
     \<lparr>timeValue = 1709944200000,
      offsetAtUTC = (\<lambda>t. if t < 1710054000000 then - 18000000 else - 14400000),
      offsetAtLocal = (\<lambda>t. if t < 1710036000000 then - 18000000 else - 14400000)\<rparr>"

text \<open>Two candidates at the same decimal distance from 2.99.\<close>

definition tiedCandidates :: "PricePointOption list" where
  "tiedCandidates =
     [\<lparr>pp_id = ''pp-199'', customerPrice = ''1.99'', currency = Some ''USD''\<rparr>,
      \<lparr>pp_id = ''pp-399'', customerPrice = ''3.99'', currency = Some ''USD''\<rparr>]"

text \<open>The example vendor with the request for the third page rejected.\<close>

definition cutVendor :: vendor where
  "cutVendor = exampleVendor (Ok []) FetchFailed"

text \<open>Variants of that vendor: one whose first group cannot be listed, one that
  answers neither for products nor for groups, one whose third page fails, and one
  that serves no page at all.\<close>

definition failingVendor :: vendor where
  "failingVendor = exampleVendor (NotOk 500 ''boom'') (Ok page3)"

definition downVendor :: vendor where
  "downVendor = plainVendor\<lparr>inAppPurchases := (\<lambda>iapId. NotOk 404 ''gone''),
                           subscriptionGroups := NotOk 503 ''busy''\<rparr>"

definition busyVendor :: vendor where
  "busyVendor = exampleVendor (Ok []) (NotOk 503 ''busy'')"

definition closedVendor :: vendor where
  "closedVendor = plainVendor\<lparr>pricePointsAt := (\<lambda>url. NotOk 429 ''slow'')\<rparr>"

text \<open>A vendor that answers for products and groups while every request for a page
  of price points is rejected.\<close>

definition offlineVendor :: vendor where
  "offlineVendor = plainVendor\<lparr>pricePointsAt := (\<lambda>url. FetchFailed)\<rparr>"

section \<open>The matcher returns the first closest candidate\<close>

lemma num_less_irrefl: "\<not> num_less a a"
  by (cases a) simp_all

lemma num_less_trans: "num_less a b \<Longrightarrow> num_less b c \<Longrightarrow> num_less a c"
  by (cases a; cases b; cases c) simp_all

lemma num_less_le_trans:
  "num_less a b \<Longrightarrow> \<not> num_less c b \<Longrightarrow> c \<noteq> NaN \<Longrightarrow> num_less a c"
  by (cases a; cases b; cases c) simp_all

lemma num_le_less_trans:
  "\<not> num_less b a \<Longrightarrow> num_less b c \<Longrightarrow> a \<noteq> NaN \<Longrightarrow> \<not> num_less c a"
  by (cases a; cases b; cases c) simp_all

text \<open>The rounding is the one of the arithmetic of doubles: the exponent found is the
  binary exponent of the number, and the result is a multiple of the unit in the last
  place at most half a unit away.\<close>

lemma pow2_pos: "0 < pow2 e"
  by (simp add: pow2_def)

lemma pow2_nat_ge_one: "1 \<le> pow2 (int n)"
  by (simp add: pow2_def)

lemma pow2_neg_nat_le_one: "pow2 (- int n) \<le> 1"
  by (cases n) (simp_all add: pow2_def field_simps)

lemma pow2_succ: "pow2 (e + 1) = 2 * pow2 e"
proof (cases "0 \<le> e")
  case True
  then show ?thesis by (simp add: pow2_def nat_add_distrib)
next
  case False
  define n where "n = nat (- e - 1)"
  have e: "e = - int n - 1" using False by (simp add: n_def)
  have low: "pow2 e = 1 / 2 ^ Suc n"
  proof -
    have "nat (- e) = Suc n" using False by (simp add: n_def)
    with False show ?thesis by (simp add: pow2_def)
  qed
  have high: "pow2 (e + 1) = 1 / 2 ^ n"
  proof (cases n)
    case 0
    then show ?thesis by (simp add: e pow2_def)
  next
    case (Suc k)
    have "e + 1 = - int (Suc k)" using e Suc by simp
    then have "pow2 (e + 1) = 1 / 2 ^ nat (int (Suc k))"
      unfolding pow2_def by simp
    with Suc show ?thesis by (simp only: nat_int)
  qed
  show ?thesis by (simp add: low high)
qed

lemma binaryExponent_bounds:
  "pow2 (- int fuel) \<le> a \<Longrightarrow> a < 2 * pow2 (int fuel)
   \<Longrightarrow> pow2 (binaryExponent fuel a) \<le> a \<and> a < 2 * pow2 (binaryExponent fuel a)"
proof (induction fuel arbitrary: a)
  case 0
  then show ?case by (simp add: pow2_def)
next
  case (Suc fuel)
  have up: "pow2 (int (Suc fuel)) = 2 * pow2 (int fuel)"
    using pow2_succ [of "int fuel"] by (simp add: add.commute)
  have down: "pow2 (- int fuel) = 2 * pow2 (- int (Suc fuel))"
    using pow2_succ [of "- int (Suc fuel)"] by simp
  consider (big) "2 \<le> a" | (small) "a < 1" | (unit) "1 \<le> a" "a < 2" by linarith
  then show ?case
  proof cases
    case big
    have "pow2 (- int fuel) \<le> a / 2"
      using big pow2_neg_nat_le_one [of fuel] by simp
    moreover have "a / 2 < 2 * pow2 (int fuel)"
      using Suc.prems(2) up by simp
    ultimately have "pow2 (binaryExponent fuel (a / 2)) \<le> a / 2
        \<and> a / 2 < 2 * pow2 (binaryExponent fuel (a / 2))"
      by (rule Suc.IH)
    with big show ?thesis by (simp add: pow2_succ)
  next
    case small
    have "pow2 (- int fuel) \<le> a * 2"
      using Suc.prems(1) down by simp
    moreover have "a * 2 < 2 * pow2 (int fuel)"
      using small pow2_nat_ge_one [of fuel] by simp
    ultimately have ih: "pow2 (binaryExponent fuel (a * 2)) \<le> a * 2
        \<and> a * 2 < 2 * pow2 (binaryExponent fuel (a * 2))"
      by (rule Suc.IH)
    have "pow2 (binaryExponent fuel (a * 2)) = 2 * pow2 (binaryExponent fuel (a * 2) - 1)"
      using pow2_succ [of "binaryExponent fuel (a * 2) - 1"] by simp
    with ih small show ?thesis by simp
  next
    case unit
    then show ?thesis by (simp add: pow2_def)
  qed
qed

lemma roundHalfEven_nearest: "\<bar>of_int (roundHalfEven x) - x\<bar> \<le> 1 / 2"
  unfolding roundHalfEven_def Let_def by (auto simp: abs_if) linarith+

lemma roundToUlp_nearest:
  assumes "roundToUlp a e = Fin r"
  shows "\<bar>r - a\<bar> \<le> pow2 (e - 52) / 2"
proof -
  define u where "u = pow2 (e - 52)"
  have u: "0 < u" by (simp add: u_def pow2_pos)
  from assms have r: "r = of_int (roundHalfEven (a / u)) * u"
    by (simp add: roundToUlp_def u_def split: if_splits)
  have "r - a = (of_int (roundHalfEven (a / u)) - a / u) * u"
    using u by (simp add: r field_simps)
  then have "\<bar>r - a\<bar> = \<bar>of_int (roundHalfEven (a / u)) - a / u\<bar> * u"
    using u by (simp add: abs_mult)
  also have "\<dots> \<le> (1 / 2) * u"
    using roundHalfEven_nearest [of "a / u"] u by (simp only: mult_right_mono less_imp_le)
  finally show ?thesis by (simp add: u_def)
qed

text \<open>Rounding never gives \<open>NaN\<close>, so a finite desired price and a candidate whose
  price reads as a finite number never give the difference \<open>NaN\<close>.\<close>

lemma roundDouble_not_NaN [simp]: "roundDouble x \<noteq> NaN"
  by (simp add: roundDouble_def roundPositive_def roundToUlp_def split: number.splits)

lemma priceDiff_decimal:
  "parseFloat (customerPrice pp) = Fin q \<Longrightarrow> priceDiff (Fin d) pp \<noteq> NaN"
proof -
  assume "parseFloat (customerPrice pp) = Fin q"
  then have "priceDiff (Fin d) pp = num_abs (roundDouble (d - q))"
    by (simp add: priceDiff_def)
  then show ?thesis
    by (cases "roundDouble (d - q)") simp_all
qed

text \<open>Evaluating the rounding of a numeral: the search for the exponent steps on a
  numeral of fuel, and the floor of a fraction of numerals is a quotient.\<close>

lemma binaryExponent_numeral:
  "binaryExponent (numeral k) a =
     (if 2 \<le> a then binaryExponent (pred_numeral k) (a / 2) + 1
      else if a < 1 then binaryExponent (pred_numeral k) (a * 2) - 1
      else 0)"
  by (simp add: numeral_eq_Suc)

lemma floor_rat_numeral: "\<lfloor>numeral a / numeral b :: rat\<rfloor> = numeral a div numeral b"
  by (metis floor_divide_of_int_eq of_int_numeral)

lemmas double_defs =
  roundDouble_def roundPositive_def roundToUlp_def roundHalfEven_def pow2_def
  binaryExponent_numeral floor_rat_numeral

lemma roundDouble_exact:
  "roundDouble 5 = Fin 5" "roundDouble 9 = Fin 9" "roundDouble 10 = Fin 10"
  "roundDouble (19 / 2) = Fin (19 / 2)" "roundDouble (1 / 2) = Fin (1 / 2)"
  "roundDouble (- (1 / 2)) = Fin (- (1 / 2))"
  by (simp_all add: double_defs)

text \<open>The loop invariant: \<open>pre\<close> is the part of the list already visited and the
  current best is its first element of least difference.\<close>

lemma scanClosest_invariant:
  assumes "k < length pre"
    and "\<forall>pp \<in> set (pre @ rest). priceDiff d pp \<noteq> NaN"
    and "\<forall>j < length pre. \<not> num_less (priceDiff d (pre ! j)) (priceDiff d (pre ! k))"
    and "\<forall>j < k. num_less (priceDiff d (pre ! k)) (priceDiff d (pre ! j))"
  shows "\<exists>i < length (pre @ rest).
           scanClosest d (pre ! k) (priceDiff d (pre ! k)) rest = (pre @ rest) ! i
         \<and> (\<forall>j < length (pre @ rest).
               \<not> num_less (priceDiff d ((pre @ rest) ! j)) (priceDiff d ((pre @ rest) ! i)))
         \<and> (\<forall>j < i. num_less (priceDiff d ((pre @ rest) ! i)) (priceDiff d ((pre @ rest) ! j)))"
  using assms
proof (induction rest arbitrary: pre k)
  case Nil
  then show ?case by auto
next
  case (Cons pp rest)
  let ?pre = "pre @ [pp]"
  have nn: "\<forall>q \<in> set (?pre @ rest). priceDiff d q \<noteq> NaN"
    using Cons.prems(2) by simp
  have nnpre: "\<And>j. j < length pre \<Longrightarrow> priceDiff d (pre ! j) \<noteq> NaN"
    using Cons.prems(2) by simp
  show ?case
  proof (cases "num_less (priceDiff d pp) (priceDiff d (pre ! k))")
    case True
    have k': "length pre < length ?pre" by simp
    have best: "?pre ! length pre = pp" by simp
    have a: "\<forall>j < length ?pre. \<not> num_less (priceDiff d (?pre ! j)) (priceDiff d (?pre ! length pre))"
    proof (intro allI impI)
      fix j assume "j < length ?pre"
      then consider "j < length pre" | "j = length pre" by force
      then show "\<not> num_less (priceDiff d (?pre ! j)) (priceDiff d (?pre ! length pre))"
      proof cases
        case 1
        have "\<not> num_less (priceDiff d (pre ! j)) (priceDiff d pp)"
          using num_less_trans [OF _ True] Cons.prems(3) 1 by blast
        then show ?thesis using 1 by (simp add: nth_append)
      next
        case 2
        then show ?thesis by (simp add: num_less_irrefl)
      qed
    qed
    have b: "\<forall>j < length pre. num_less (priceDiff d (?pre ! length pre)) (priceDiff d (?pre ! j))"
    proof (intro allI impI)
      fix j assume j: "j < length pre"
      have "num_less (priceDiff d pp) (priceDiff d (pre ! j))"
        using num_less_le_trans [OF True] Cons.prems(3) j nnpre by blast
      then show "num_less (priceDiff d (?pre ! length pre)) (priceDiff d (?pre ! j))"
        using j by (simp add: nth_append)
    qed
    from Cons.IH [OF k' nn a b] True show ?thesis by simp
  next
    case False
    have k': "k < length ?pre" using Cons.prems(1) by simp
    have bk: "?pre ! k = pre ! k" using Cons.prems(1) by (simp add: nth_append)
    have a: "\<forall>j < length ?pre. \<not> num_less (priceDiff d (?pre ! j)) (priceDiff d (?pre ! k))"
    proof (intro allI impI)
      fix j assume "j < length ?pre"
      then consider "j < length pre" | "j = length pre" by force
      then show "\<not> num_less (priceDiff d (?pre ! j)) (priceDiff d (?pre ! k))"
      proof cases
        case 1
        then show ?thesis using Cons.prems(3) bk by (simp add: nth_append)
      next
        case 2
        then show ?thesis using False bk by simp
      qed
    qed
    have b: "\<forall>j < k. num_less (priceDiff d (?pre ! k)) (priceDiff d (?pre ! j))"
      using Cons.prems(4) Cons.prems(1) bk by (simp add: nth_append)
    from Cons.IH [OF k' nn a b] False bk show ?thesis by simp
  qed
qed

text \<open>
  Claim C1, as amended. The difference of a candidate is the one the source computes,
  \<open>Math.abs(desiredPrice - parseFloat(customerPrice))\<close> in doubles. For a non-empty
  list of candidates none of whose differences is \<open>NaN\<close> (a finite desired price and
  candidate prices that read as finite numbers), the matcher returns the candidate at
  an index \<open>i\<close> such that no candidate has a smaller computed difference and every
  candidate before \<open>i\<close> has a strictly greater one: the first candidate of least
  computed difference, in input order. On the empty list it fails (the \<open>TypeError\<close>
  of reading \<open>customerPrice\<close> of \<open>undefined\<close>) and returns no price point.
\<close>

theorem findClosestPricePoint_first_minimal:
  "(pricePoints \<noteq> [] \<and> (\<forall>pp \<in> set pricePoints. priceDiff d pp \<noteq> NaN) \<longrightarrow>
      (\<exists>i < length pricePoints.
          findClosestPricePoint d pricePoints = Inr (pricePoints ! i)
        \<and> (\<forall>j < length pricePoints.
              \<not> num_less (priceDiff d (pricePoints ! j)) (priceDiff d (pricePoints ! i)))
        \<and> (\<forall>j < i. num_less (priceDiff d (pricePoints ! i)) (priceDiff d (pricePoints ! j)))))
   \<and> (\<exists>e. findClosestPricePoint d [] = Inl e)"
proof (intro conjI impI)
  assume h: "pricePoints \<noteq> [] \<and> (\<forall>pp \<in> set pricePoints. priceDiff d pp \<noteq> NaN)"
  then obtain p0 rest where ps: "pricePoints = p0 # rest" by (cases pricePoints) auto
  have nn: "\<forall>pp \<in> set ([p0] @ rest). priceDiff d pp \<noteq> NaN" using h ps by simp
  have first: "scanClosest d p0 (priceDiff d p0) (p0 # rest) = scanClosest d p0 (priceDiff d p0) rest"
    by (simp add: num_less_irrefl)
  have "\<exists>i < length ([p0] @ rest).
           scanClosest d ([p0] ! 0) (priceDiff d ([p0] ! 0)) rest = ([p0] @ rest) ! i
         \<and> (\<forall>j < length ([p0] @ rest).
               \<not> num_less (priceDiff d (([p0] @ rest) ! j)) (priceDiff d (([p0] @ rest) ! i)))
         \<and> (\<forall>j < i. num_less (priceDiff d (([p0] @ rest) ! i)) (priceDiff d (([p0] @ rest) ! j)))"
    by (rule scanClosest_invariant [OF _ nn]) (simp_all add: num_less_irrefl)
  then show "\<exists>i < length pricePoints.
          findClosestPricePoint d pricePoints = Inr (pricePoints ! i)
        \<and> (\<forall>j < length pricePoints.
              \<not> num_less (priceDiff d (pricePoints ! j)) (priceDiff d (pricePoints ! i)))
        \<and> (\<forall>j < i. num_less (priceDiff d (pricePoints ! i)) (priceDiff d (pricePoints ! j)))"
    using first by (simp add: findClosestPricePoint_def ps del: scanClosest.simps)
next
  show "\<exists>e. findClosestPricePoint d [] = Inl e"
    by (simp add: findClosestPricePoint_def)
qed

lemmas parse_defs =
  parseFloat_def parseUnsigned_def parseExponent_def scale10_def isDigit_def isWhiteSpace_def

lemmas string_defs = str_split_def str_trim_def isWhiteSpace_def

lemmas line_defs =
  tryLine_def fetchPricePoints_def modal_updatePrice_def findClosestPricePoint_def priceDiff_def

theorem findClosestPricePoint_first_minimal_witness:
  "exampleCandidates \<noteq> []
   \<and> priceDiff (Fin (19 / 2)) (exampleCandidates ! 0) = Fin (1 / 2)
   \<and> priceDiff (Fin (19 / 2)) (exampleCandidates ! 1) = Fin (1 / 2)
   \<and> findClosestPricePoint (Fin (19 / 2)) exampleCandidates = Inr (exampleCandidates ! 0)"
proof -
  have d0: "priceDiff (Fin (19 / 2)) (exampleCandidates ! 0) = Fin (1 / 2)"
    by (simp add: exampleCandidates_def priceDiff_def parse_defs roundDouble_exact)
  have d1: "priceDiff (Fin (19 / 2)) (exampleCandidates ! 1) = Fin (1 / 2)"
    by (simp add: exampleCandidates_def priceDiff_def parse_defs roundDouble_exact)
  have len: "length exampleCandidates = 2" by (simp add: exampleCandidates_def)
  have ne: "exampleCandidates \<noteq> []" by (simp add: exampleCandidates_def)
  have nn: "\<forall>pp \<in> set exampleCandidates. priceDiff (Fin (19 / 2)) pp \<noteq> NaN"
    by (simp add: exampleCandidates_def priceDiff_def parse_defs roundDouble_exact)
  from findClosestPricePoint_first_minimal [of exampleCandidates "Fin (19 / 2)"] ne nn
  obtain i where i: "i < length exampleCandidates"
    and res: "findClosestPricePoint (Fin (19 / 2)) exampleCandidates = Inr (exampleCandidates ! i)"
    and first: "\<forall>j < i. num_less (priceDiff (Fin (19 / 2)) (exampleCandidates ! i))
                               (priceDiff (Fin (19 / 2)) (exampleCandidates ! j))"
    by blast
  have "i = 0"
  proof (rule ccontr)
    assume "i \<noteq> 0"
    with i len have "i = 1" by simp
    with first d0 d1 show False by simp
  qed
  with res d0 d1 ne show ?thesis by simp
qed

text \<open>The claim as it was stated fails at two candidates at the same decimal distance
  from the desired price: 1.99 and 3.99 are both 1.00 away from 2.99, but the computed
  differences are \<open>1 + 2^(-52)\<close> and 1, and the matcher returns the second candidate.\<close>

theorem equal_decimal_distance_second_wins:
  "\<bar>299 / 100 - 199 / 100 :: rat\<bar> = \<bar>299 / 100 - 399 / 100\<bar>
   \<and> parseFloat ''2.99'' = roundDouble (299 / 100)
   \<and> priceDiff (roundDouble (299 / 100)) (tiedCandidates ! 0)
       = Fin (4503599627370497 / 4503599627370496)
   \<and> priceDiff (roundDouble (299 / 100)) (tiedCandidates ! 1) = Fin 1
   \<and> findClosestPricePoint (roundDouble (299 / 100)) tiedCandidates = Inr (tiedCandidates ! 1)"
proof -
  define p0 where
    "p0 = \<lparr>pp_id = ''pp-199'', customerPrice = ''1.99'', currency = Some ''USD''\<rparr>"
  define p1 where
    "p1 = \<lparr>pp_id = ''pp-399'', customerPrice = ''3.99'', currency = Some ''USD''\<rparr>"
  have nth: "tiedCandidates ! 0 = p0" "tiedCandidates ! 1 = p1"
    by (simp_all add: tiedCandidates_def p0_def p1_def)
  have both: "tiedCandidates = [p0, p1]"
    by (simp add: tiedCandidates_def p0_def p1_def)
  have desired: "roundDouble (299 / 100) = Fin (1683220360729723 / 562949953421312)"
    by (simp add: double_defs)
  have first: "parseFloat ''1.99'' = Fin (8962163258467287 / 4503599627370496)"
    by (simp add: parse_defs double_defs)
  have second: "parseFloat ''3.99'' = Fin (2246170314151035 / 562949953421312)"
    by (simp add: parse_defs double_defs)
  have d0: "priceDiff (roundDouble (299 / 100)) p0 = Fin (4503599627370497 / 4503599627370496)"
    by (simp add: p0_def priceDiff_def desired first) (simp add: double_defs)
  have d1: "priceDiff (roundDouble (299 / 100)) p1 = Fin 1"
    by (simp add: p1_def priceDiff_def desired second) (simp add: double_defs)
  have "findClosestPricePoint (roundDouble (299 / 100)) [p0, p1]
          = Inr (scanClosest (roundDouble (299 / 100)) p0
                   (priceDiff (roundDouble (299 / 100)) p0) [p0, p1])"
    by (simp add: findClosestPricePoint_def)
  also have "\<dots> = Inr p1"
    by (simp add: d0 d1)
  finally have found: "findClosestPricePoint (roundDouble (299 / 100)) [p0, p1] = Inr p1" .
  have desiredText: "parseFloat ''2.99'' = roundDouble (299 / 100)"
    by (simp add: parse_defs)
  have "\<bar>299 / 100 - 199 / 100 :: rat\<bar> = \<bar>299 / 100 - 399 / 100\<bar>"
    by simp
  with desiredText d0 d1 found show ?thesis
    unfolding nth unfolding both by blast
qed

section \<open>The bulk run\<close>

lemma parseLines_filter:
  "parseLines lines result = result @ map lineInput (filter validLine lines)"
  by (induction lines arbitrary: result)
     (simp_all add: Let_def validLine_def lineInput_def fields_def isNaN_def)

lemma parseCsv_filter: "parseCsv text = map lineInput (filter validLine (csvLines text))"
  by (simp add: parseCsv_def csvLines_def parseLines_filter)


lemma bulkIteration_counts:
  "doneCount (bulkIteration a iapId p n i inp st) + length (errors (bulkIteration a iapId p n i inp st))
     = doneCount st + length (errors st) + 1"
  by (simp add: bulkIteration_def split: prod.splits sum.splits)

lemma bulkLoop_counts:
  "doneCount (bulkLoop a iapId p n i inputs st) + length (errors (bulkLoop a iapId p n i inputs st))
     = doneCount st + length (errors st) + length inputs"
  by (induction inputs arbitrary: i st) (simp_all add: bulkIteration_counts)

lemma bulkLoop_append:
  "bulkLoop a iapId p n i (xs @ ys) st
     = bulkLoop a iapId p n (i + length xs) ys (bulkLoop a iapId p n i xs st)"
  by (induction xs arbitrary: i st) simp_all

lemma bulkIteration_errors_prefix:
  "prefix (errors st) (errors (bulkIteration a iapId p n i inp st))"
  by (simp add: bulkIteration_def split: prod.splits sum.splits)

lemma bulkLoop_errors_prefix:
  "prefix (errors st) (errors (bulkLoop a iapId p n i inputs st))"
proof (induction inputs arbitrary: i st)
  case Nil
  then show ?case by simp
next
  case (Cons inp inputs)
  have "prefix (errors st) (errors (bulkIteration a iapId p n i inp st))"
    by (rule bulkIteration_errors_prefix)
  also have "prefix \<dots> (errors (bulkLoop a iapId p n (i + 1) inputs (bulkIteration a iapId p n i inp st)))"
    by (rule Cons.IH)
  finally show ?case by simp
qed





lemma bulkIteration_totalCount:
  "totalCount (bulkIteration a iapId p n i inp st) = totalCount st"
  by (simp add: bulkIteration_def split: prod.splits sum.splits)

lemma bulkLoop_totalCount: "totalCount (bulkLoop a iapId p n i inputs st) = totalCount st"
  by (induction inputs arbitrary: i st) (simp_all add: bulkIteration_totalCount)

lemma handleBulkEdit_totalCount:
  "totalCount (handleBulkEdit a iapId csvText p st) = length (parseCsv csvText)"
  by (simp add: handleBulkEdit_def Let_def bulkLoop_totalCount)

lemma handleBulkEdit_counts:
  "doneCount (handleBulkEdit a iapId csvText p st) + length (errors (handleBulkEdit a iapId csvText p st))
     = length (parseCsv csvText)"
  by (simp add: handleBulkEdit_def Let_def bulkLoop_counts)


section \<open>Claims about the bulk run\<close>

text \<open>
  Claim C2. When the pass for one line throws, the error is caught: an entry with the
  territory, the desired price and the message of the error is appended to the error
  list (it renders as \<open>territory => desiredPrice: message\<close>), and the loop goes on
  with the lines after it, from the state the failed pass left. Whatever fails, every
  parsed line is passed over exactly once: the lines that succeeded and the error
  entries add up to the number of lines, which is the count of processed lines.
\<close>

theorem bulk_line_failure_does_not_abort:
  assumes "tryLine a iapId p inp (trace (bulkLoop a iapId p n i pre st)) = (Inl err, tr)"
  shows "bulkLoop a iapId p n i (pre @ inp # post) st
           = bulkLoop a iapId p n (i + length pre + 1) post
               ((bulkLoop a iapId p n i pre st)
                  \<lparr>status := Some (Processing (i + length pre + 1) n (territory inp)),
                   errors := errors (bulkLoop a iapId p n i pre st)
                             @ [ErrorLine (territory inp) (desiredPrice inp) (message err)],
                   trace := tr\<rparr>)
       \<and> prefix (errors (bulkLoop a iapId p n i pre st)
                   @ [ErrorLine (territory inp) (desiredPrice inp) (message err)])
                 (errors (bulkLoop a iapId p n i (pre @ inp # post) st))
       \<and> renderError toString (ErrorLine (territory inp) (desiredPrice inp) (message err))
           = territory inp @ '' => '' @ toString (desiredPrice inp) @ '': '' @ message err
       \<and> doneCount (bulkLoop a iapId p n i (pre @ inp # post) st)
           + length (errors (bulkLoop a iapId p n i (pre @ inp # post) st))
           = doneCount st + length (errors st) + length (pre @ inp # post)
       \<and> doneCount (handleBulkEdit a iapId csvText p st0)
           + length (errors (handleBulkEdit a iapId csvText p st0))
           = totalCount (handleBulkEdit a iapId csvText p st0)"
proof -
  let ?mid = "bulkLoop a iapId p n i pre st"
  let ?entry = "ErrorLine (territory inp) (desiredPrice inp) (message err)"
  let ?next = "?mid\<lparr>status := Some (Processing (i + length pre + 1) n (territory inp)),
                     errors := errors ?mid @ [?entry], trace := tr\<rparr>"
  have step: "bulkIteration a iapId p n (i + length pre) inp ?mid = ?next"
    using assms by (simp add: bulkIteration_def)
  have split: "bulkLoop a iapId p n i (pre @ inp # post) st
                 = bulkLoop a iapId p n (i + length pre + 1) post ?next"
    by (simp add: bulkLoop_append step)
  have "prefix (errors ?next) (errors (bulkLoop a iapId p n (i + length pre + 1) post ?next))"
    by (rule bulkLoop_errors_prefix)
  then have pre: "prefix (errors ?mid @ [?entry]) (errors (bulkLoop a iapId p n i (pre @ inp # post) st))"
    by (simp add: split)
  have total: "doneCount (handleBulkEdit a iapId csvText p st0)
           + length (errors (handleBulkEdit a iapId csvText p st0))
           = totalCount (handleBulkEdit a iapId csvText p st0)"
    by (simp add: handleBulkEdit_counts handleBulkEdit_totalCount)
  show ?thesis
    using split pre total by (simp add: bulkLoop_counts)
qed

lemma exampleCsv_lines: "parseCsv exampleCsv = [lineUS, lineXX, lineCA]"
  by (simp add: exampleCsv_def parseCsv_def string_defs parse_defs isNaN_def
      lineUS_def lineXX_def lineCA_def roundDouble_exact)

lemma tryLine_exampleApi_US:
  "tryLine exampleApi iapId p lineUS tr
     = (Inr (), tr @ [GetPricePoints iapId ''US'', PostPrice iapId ''US'' ''pp-1000'' p, Sleep 1000])"
  by (simp add: line_defs exampleApi_def exampleCandidates_def lineUS_def parse_defs double_defs)

lemma tryLine_exampleApi_CA:
  "tryLine exampleApi iapId p lineCA tr
     = (Inr (), tr @ [GetPricePoints iapId ''CA'', PostPrice iapId ''CA'' ''pp-1000'' p, Sleep 1000])"
  by (simp add: line_defs exampleApi_def exampleCandidates_def lineCA_def parse_defs double_defs)

lemma tryLine_exampleApi_XX:
  "tryLine exampleApi iapId p lineXX tr
     = (Inl (Error ''No price points found for territory XX''), tr @ [GetPricePoints iapId ''XX''])"
  by (simp add: line_defs exampleApi_def lineXX_def)

lemma example_fields:
  "territory lineUS = ''US''" "desiredPrice lineUS = roundDouble (999 / 100)"
  "territory lineXX = ''XX''" "desiredPrice lineXX = Fin 5"
  "territory lineCA = ''CA''" "desiredPrice lineCA = roundDouble (1049 / 100)"
  by (simp_all add: lineUS_def lineXX_def lineCA_def)

lemmas example_lines =
  tryLine_exampleApi_US tryLine_exampleApi_CA tryLine_exampleApi_XX example_fields

lemma handleBulkEdit_example:
  "handleBulkEdit exampleApi ''iap'' exampleCsv True initialModal
     = \<lparr>status = Some Complete,
        errors = [ErrorLine ''XX'' (Fin 5) ''No price points found for territory XX''],
        inProgress = False, doneCount = 2, totalCount = 3,
        trace = [GetPricePoints ''iap'' ''US'', PostPrice ''iap'' ''US'' ''pp-1000'' True, Sleep 1000,
                 GetPricePoints ''iap'' ''XX'',
                 GetPricePoints ''iap'' ''CA'', PostPrice ''iap'' ''CA'' ''pp-1000'' True, Sleep 1000,
                 OnComplete]\<rparr>"
  by (simp add: handleBulkEdit_def exampleCsv_lines bulkIteration_def example_lines initialModal_def)

theorem bulk_line_failure_does_not_abort_witness:
  "tryLine exampleApi ''iap'' True lineXX (trace (bulkLoop exampleApi ''iap'' True 3 0 [lineUS] (started 3)))
     = (Inl (Error ''No price points found for territory XX''),
        [GetPricePoints ''iap'' ''US'', PostPrice ''iap'' ''US'' ''pp-1000'' True, Sleep 1000,
         GetPricePoints ''iap'' ''XX''])
   \<and> prefix [ErrorLine ''XX'' (Fin 5) ''No price points found for territory XX'']
        (errors (bulkLoop exampleApi ''iap'' True 3 0 [lineUS, lineXX, lineCA] (started 3)))
   \<and> parseCsv exampleCsv = [lineUS, lineXX, lineCA]
   \<and> totalCount (handleBulkEdit exampleApi ''iap'' exampleCsv True initialModal) = 3
   \<and> doneCount (handleBulkEdit exampleApi ''iap'' exampleCsv True initialModal) = 2
   \<and> errors (handleBulkEdit exampleApi ''iap'' exampleCsv True initialModal)
        = [ErrorLine ''XX'' (Fin 5) ''No price points found for territory XX'']"
proof -
  have mid: "bulkLoop exampleApi ''iap'' True 3 0 [lineUS] (started 3)
               = (started 3)\<lparr>status := Some (Processing 1 3 ''US''), doneCount := 1,
                    trace := [GetPricePoints ''iap'' ''US'', PostPrice ''iap'' ''US'' ''pp-1000'' True,
                              Sleep 1000]\<rparr>"
    by (simp add: bulkIteration_def example_lines started_def initialModal_def)
  have h: "tryLine exampleApi ''iap'' True lineXX
             (trace (bulkLoop exampleApi ''iap'' True 3 0 [lineUS] (started 3)))
           = (Inl (Error ''No price points found for territory XX''),
              [GetPricePoints ''iap'' ''US'', PostPrice ''iap'' ''US'' ''pp-1000'' True, Sleep 1000,
               GetPricePoints ''iap'' ''XX''])"
    unfolding mid by (simp add: example_lines)
  have "prefix (errors (bulkLoop exampleApi ''iap'' True 3 0 [lineUS] (started 3))
                  @ [ErrorLine (territory lineXX) (desiredPrice lineXX)
                       (message (Error ''No price points found for territory XX''))])
               (errors (bulkLoop exampleApi ''iap'' True 3 0 ([lineUS] @ lineXX # [lineCA]) (started 3)))"
    using bulk_line_failure_does_not_abort [OF h, of "[lineCA]"] by blast
  then have "prefix [ErrorLine ''XX'' (Fin 5) ''No price points found for territory XX'']
        (errors (bulkLoop exampleApi ''iap'' True 3 0 [lineUS, lineXX, lineCA] (started 3)))"
    unfolding mid by (simp add: started_def initialModal_def example_fields)
  with h show ?thesis
    by (simp add: handleBulkEdit_example exampleCsv_lines)
qed

text \<open>
  Claim C3, as amended. The parser splits the text at the newlines, trims each line and
  drops the empty ones; of the remaining lines it keeps, in order, those that split at
  the commas into exactly two fields and for whose second field \<open>parseFloat\<close> does not
  return \<open>NaN\<close>. The other lines are dropped: the count of processed lines is the
  number of kept lines, and the lines that succeeded and the error entries add up to it.
\<close>

theorem parseCsv_keeps_two_fields_with_a_number:
  "parseCsv text = map lineInput (filter validLine (csvLines text))
   \<and> totalCount (handleBulkEdit a iapId text p st) = length (filter validLine (csvLines text))
   \<and> doneCount (handleBulkEdit a iapId text p st) + length (errors (handleBulkEdit a iapId text p st))
       = length (filter validLine (csvLines text))"
  by (simp add: handleBulkEdit_totalCount handleBulkEdit_counts parseCsv_filter)

lemma tolerantCsv_lines:
  "csvLines tolerantCsv = [''US, 9.99'', ''CA,10.49'', ''badline'', ''GB, 8.99'']"
  by (simp add: tolerantCsv_def csvLines_def string_defs)

lemma tolerantCsv_fields:
  "fields ''US, 9.99'' = [''US'', ''9.99'']" "fields ''CA,10.49'' = [''CA'', ''10.49'']"
  "fields ''badline'' = [''badline'']" "fields ''GB, 8.99'' = [''GB'', ''8.99'']"
  by (simp_all add: fields_def string_defs)

lemma tolerantCsv_prices:
  "parseFloat ''9.99'' = roundDouble (999 / 100)" "parseFloat ''10.49'' = roundDouble (1049 / 100)"
  "parseFloat ''8.99'' = roundDouble (899 / 100)"
  by (simp_all add: parse_defs)

theorem parseCsv_keeps_two_fields_with_a_number_witness:
  "filter validLine (csvLines tolerantCsv) = [''US, 9.99'', ''CA,10.49'', ''GB, 8.99'']
   \<and> parseCsv tolerantCsv
       = [\<lparr>territory = ''US'', desiredPrice = roundDouble (999 / 100)\<rparr>,
          \<lparr>territory = ''CA'', desiredPrice = roundDouble (1049 / 100)\<rparr>,
          \<lparr>territory = ''GB'', desiredPrice = roundDouble (899 / 100)\<rparr>]
   \<and> totalCount (handleBulkEdit exampleApi ''iap'' tolerantCsv True initialModal) = 3
   \<and> errors (handleBulkEdit exampleApi ''iap'' tolerantCsv True initialModal) = []"
proof -
  have kept: "filter validLine (csvLines tolerantCsv) = [''US, 9.99'', ''CA,10.49'', ''GB, 8.99'']"
    by (simp add: tolerantCsv_lines validLine_def tolerantCsv_fields tolerantCsv_prices)
  note inst = parseCsv_keeps_two_fields_with_a_number
               [of tolerantCsv exampleApi "''iap''" True initialModal]
  from inst have parsed: "parseCsv tolerantCsv
       = [\<lparr>territory = ''US'', desiredPrice = roundDouble (999 / 100)\<rparr>,
          \<lparr>territory = ''CA'', desiredPrice = roundDouble (1049 / 100)\<rparr>,
          \<lparr>territory = ''GB'', desiredPrice = roundDouble (899 / 100)\<rparr>]"
    by (simp add: kept lineInput_def tolerantCsv_fields tolerantCsv_prices)
  from inst have total: "totalCount (handleBulkEdit exampleApi ''iap'' tolerantCsv True initialModal) = 3"
    by (simp add: kept)
  have "doneCount (handleBulkEdit exampleApi ''iap'' tolerantCsv True initialModal) = 3"
    by (simp add: handleBulkEdit_def parsed bulkIteration_def line_defs exampleApi_def
        exampleCandidates_def initialModal_def parse_defs double_defs)
  with inst kept have "errors (handleBulkEdit exampleApi ''iap'' tolerantCsv True initialModal) = []"
    by simp
  with kept parsed total show ?thesis by simp
qed

text \<open>The claim as it was stated fails at a price field that is not a finite number:
  the line is kept, with the desired price \<open>Infinity\<close>.\<close>

theorem parseCsv_keeps_infinite_price:
  "parseCsv ''US,Infinity'' = [\<lparr>territory = ''US'', desiredPrice = PosInf\<rparr>]"
  by (simp add: parseCsv_def string_defs parse_defs isNaN_def)




text \<open>
  Claim C10. \<open>fetchPricePoints\<close> turns a rejected request and a response that is not
  \<open>ok\<close> into \<open>null\<close>, and the loop reports \<open>null\<close> with the message it has for an
  empty list: the pass over a line leaves the same state, error entry included, whether
  the route failed or answered with no price point.
\<close>

theorem failed_fetch_reported_as_empty_catalog:
  assumes "api_get a1 (trace st) iapId (territory inp) = ApiFailed
           \<or> api_get a1 (trace st) iapId (territory inp) = ApiError e"
    and "api_get a2 (trace st) iapId (territory inp) = ApiOk []"
  shows "fst (fetchPricePoints a1 iapId (territory inp) (trace st)) = None
       \<and> bulkIteration a1 iapId p n i inp st = bulkIteration a2 iapId p n i inp st
       \<and> errors (bulkIteration a1 iapId p n i inp st)
           = errors st @ [ErrorLine (territory inp) (desiredPrice inp)
                            (''No price points found for territory '' @ territory inp)]"
  using assms by (auto simp: bulkIteration_def tryLine_def fetchPricePoints_def)

theorem failed_fetch_reported_as_empty_catalog_witness:
  "api_get failingApi [] ''iap'' ''XX'' = ApiError (Some ''Error: Failed to fetch IAP details'')
   \<and> api_get exampleApi [] ''iap'' ''XX'' = ApiOk []
   \<and> bulkIteration failingApi ''iap'' True 1 0 lineXX initialModal
       = bulkIteration exampleApi ''iap'' True 1 0 lineXX initialModal
   \<and> errors (bulkIteration failingApi ''iap'' True 1 0 lineXX initialModal)
       = [ErrorLine ''XX'' (Fin 5) ''No price points found for territory XX'']"
proof -
  have f: "api_get failingApi (trace initialModal) ''iap'' (territory lineXX) = ApiFailed
           \<or> api_get failingApi (trace initialModal) ''iap'' (territory lineXX)
              = ApiError (Some ''Error: Failed to fetch IAP details'')"
    by (simp add: failingApi_def example_fields)
  have g: "api_get exampleApi (trace initialModal) ''iap'' (territory lineXX) = ApiOk []"
    by (simp add: exampleApi_def example_fields)
  have init: "errors initialModal = []" by (simp add: initialModal_def)
  note inst = failed_fetch_reported_as_empty_catalog [OF f g, of True 1 0]
  have "bulkIteration failingApi ''iap'' True 1 0 lineXX initialModal
          = bulkIteration exampleApi ''iap'' True 1 0 lineXX initialModal"
    using inst [THEN conjunct2, THEN conjunct1] .
  moreover have "errors (bulkIteration failingApi ''iap'' True 1 0 lineXX initialModal)
          = [ErrorLine ''XX'' (Fin 5) ''No price points found for territory XX'']"
    using inst [THEN conjunct2, THEN conjunct2] by (simp add: example_fields init)
  moreover have "api_get failingApi [] ''iap'' ''XX''
                   = ApiError (Some ''Error: Failed to fetch IAP details'')"
    by (simp add: failingApi_def)
  moreover have "api_get exampleApi [] ''iap'' ''XX'' = ApiOk []"
    by (simp add: exampleApi_def)
  ultimately show ?thesis by simp
qed

section \<open>The resolution of the resource\<close>

lemma logged_simps [simp]:
  "logged earlier (r, reqs) = (r, earlier @ reqs)"
  by (simp add: logged_def)

lemma scanGroups_noMatch:
  "\<forall>g \<in> set groups. noMatch v productId g
   \<Longrightarrow> scanGroups v productId groups = (Inr None, map GetSubscriptions groups)"
  by (induction groups) (auto split: response.splits)

lemma scanGroups_first_match:
  assumes "\<forall>g \<in> set pre. noMatch v productId g"
    and "subscriptions v grp = Ok subs"
    and "find (\<lambda>sub. sub_productId sub = productId) subs = Some m"
  shows "scanGroups v productId (pre @ grp # post)
           = (Inr (Some m), map GetSubscriptions (pre @ [grp]))"
  using assms by (induction pre) (auto split: response.splits)

lemma getCurrentPrices_resource_plain:
  "inAppPurchaseType iapData \<noteq> autoRenewable
   \<Longrightarrow> getCurrentPrices_resource v iapId iapData = (Inr (iapId, ''inAppPurchases''), [])"
  by (simp add: getCurrentPrices_resource_def)

lemma followNext_end:
  "noFurtherPage nextUrl \<Longrightarrow> followNext v nextUrl allPricePoints reqs = Some (Inr allPricePoints, reqs)"
  by (subst followNext.simps) (auto simp: noFurtherPage_def)

lemma exampleVendor_fields:
  "inAppPurchases (exampleVendor first third) = examplePurchases"
  "subscriptionGroups (exampleVendor first third) = Ok [''g1'', ''g2'', ''g3'']"
  "subscriptions (exampleVendor first third) = exampleSubscriptions first"
  "pricePointsAt (exampleVendor first third) = examplePages third"
  "pricesAt (exampleVendor first third) url = Ok \<lparr>prices_data = Some [], prices_included = None\<rparr>"
  "createPrice (exampleVendor first third) url body = Ok ''{}''"
  by (simp_all add: exampleVendor_def)

lemma examplePurchases_simps:
  "examplePurchases ''monthly''
     = Ok \<lparr>iap_productId = ''com.app.monthly'', inAppPurchaseType = autoRenewable\<rparr>"
  "examplePurchases ''orphan''
     = Ok \<lparr>iap_productId = ''com.app.orphan'', inAppPurchaseType = autoRenewable\<rparr>"
  "examplePurchases ''coins''
     = Ok \<lparr>iap_productId = ''com.app.coins'', inAppPurchaseType = ''CONSUMABLE''\<rparr>"
  "examplePurchases ''gems''
     = Ok \<lparr>iap_productId = ''com.app.gems'', inAppPurchaseType = ''CONSUMABLE''\<rparr>"
  by (simp_all add: examplePurchases_def)

lemma exampleSubscriptions_simps:
  "exampleSubscriptions first ''g1'' = first"
  "exampleSubscriptions first ''g2''
     = Ok [\<lparr>sub_id = ''sub-yearly'', sub_productId = ''com.app.yearly''\<rparr>, monthlySub]"
  "exampleSubscriptions first ''g3''
     = Ok [\<lparr>sub_id = ''sub-other'', sub_productId = ''com.app.other''\<rparr>]"
  by (simp_all add: exampleSubscriptions_def)

lemma consumable_not_renewable: "''CONSUMABLE'' \<noteq> autoRenewable"
  by (simp add: autoRenewable_def)

lemmas vendor_simps =
  exampleVendor_fields examplePurchases_simps exampleSubscriptions_simps monthlySub_def
  consumable_not_renewable

lemma scan_orphan:
  "scanGroups plainVendor ''com.app.orphan'' [''g1'', ''g2'', ''g3'']
     = (Inr None, [GetSubscriptions ''g1'', GetSubscriptions ''g2'', GetSubscriptions ''g3''])"
  by (simp add: plainVendor_def vendor_simps)

text \<open>
  Claim C4. The claim holds of \<open>updatePrice\<close> only. For the product \<open>orphan\<close>,
  declared an automatically renewable subscription and held by no group,
  \<open>getCurrentPrices\<close> goes on to read the prices of the one-time purchase \<open>orphan\<close>
  and returns, \<open>fetchPricePointsForIAPAndTerritory\<close> goes on to read the price points
  of a subscription \<open>orphan\<close> and returns, and \<open>updatePrice\<close> throws the error that no
  associated subscription was found.
\<close>

theorem unmatched_subscription_only_updatePrice_throws:
  "getCurrentPrices plainVendor ''orphan''
     = (Inr ([], [], autoRenewable),
        [GetInAppPurchase ''orphan'', GetSubscriptionGroups, GetSubscriptions ''g1'',
         GetSubscriptions ''g2'', GetSubscriptions ''g3'',
         GetPricesAt (pricesUrl ''inAppPurchases'' ''orphan'')])
   \<and> fetchPricePointsForIAPAndTerritory plainVendor ''orphan'' ''USA''
     = Some (Inr [],
        [GetInAppPurchase ''orphan'', GetSubscriptionGroups, GetSubscriptions ''g1'',
         GetSubscriptions ''g2'', GetSubscriptions ''g3'',
         GetPricePointsAt (pricePointsUrl True ''orphan'' ''orphan'' ''USA'')])
   \<and> updatePrice plainVendor leapNoon ''orphan'' ''USA'' ''pp1'' True
     = (Inl (Error ''Could not find associated subscription for this IAP''),
        [GetInAppPurchase ''orphan'', GetSubscriptionGroups, GetSubscriptions ''g1'',
         GetSubscriptions ''g2'', GetSubscriptions ''g3''])"
proof (intro conjI)
  have res: "getCurrentPrices_resource plainVendor ''orphan''
               \<lparr>iap_productId = ''com.app.orphan'', inAppPurchaseType = autoRenewable\<rparr>
             = (Inr (''orphan'', ''inAppPurchases''),
                [GetSubscriptionGroups, GetSubscriptions ''g1'', GetSubscriptions ''g2'',
                 GetSubscriptions ''g3''])"
    by (simp add: getCurrentPrices_resource_def scan_orphan)
       (simp add: plainVendor_def vendor_simps)
  show "getCurrentPrices plainVendor ''orphan''
     = (Inr ([], [], autoRenewable),
        [GetInAppPurchase ''orphan'', GetSubscriptionGroups, GetSubscriptions ''g1'',
         GetSubscriptions ''g2'', GetSubscriptions ''g3'',
         GetPricesAt (pricesUrl ''inAppPurchases'' ''orphan'')])"
    by (simp add: getCurrentPrices_def plainVendor_def vendor_simps
          res [unfolded plainVendor_def] orEmpty_def)
  have rid: "fetchPricePoints_resourceId plainVendor ''orphan''
               \<lparr>iap_productId = ''com.app.orphan'', inAppPurchaseType = autoRenewable\<rparr>
             = (Inr ''orphan'',
                [GetSubscriptionGroups, GetSubscriptions ''g1'', GetSubscriptions ''g2'',
                 GetSubscriptions ''g3''])"
    by (simp add: fetchPricePoints_resourceId_def scan_orphan)
       (simp add: plainVendor_def vendor_simps)
  have page: "examplePages (Ok page3) (pricePointsUrl True ''orphan'' ''orphan'' ''USA'')
                = Ok \<lparr>page_data = [], links_next = None\<rparr>"
    by (simp add: examplePages_def coinsUrl_def pricePointsUrl_def vendorApi_def)
  show "fetchPricePointsForIAPAndTerritory plainVendor ''orphan'' ''USA''
     = Some (Inr [],
        [GetInAppPurchase ''orphan'', GetSubscriptionGroups, GetSubscriptions ''g1'',
         GetSubscriptions ''g2'', GetSubscriptions ''g3'',
         GetPricePointsAt (pricePointsUrl True ''orphan'' ''orphan'' ''USA'')])"
    by (simp add: fetchPricePointsForIAPAndTerritory_def plainVendor_def vendor_simps
          rid [unfolded plainVendor_def] page followNext_end noFurtherPage_def)
  have sid: "updatePrice_subscriptionId plainVendor
               \<lparr>iap_productId = ''com.app.orphan'', inAppPurchaseType = autoRenewable\<rparr>
             = (Inl notFound,
                [GetSubscriptionGroups, GetSubscriptions ''g1'', GetSubscriptions ''g2'',
                 GetSubscriptions ''g3''])"
    by (simp add: updatePrice_subscriptionId_def scan_orphan)
       (simp add: plainVendor_def vendor_simps)
  show "updatePrice plainVendor leapNoon ''orphan'' ''USA'' ''pp1'' True
     = (Inl (Error ''Could not find associated subscription for this IAP''),
        [GetInAppPurchase ''orphan'', GetSubscriptionGroups, GetSubscriptions ''g1'',
         GetSubscriptions ''g2'', GetSubscriptions ''g3''])"
    by (simp add: updatePrice_def plainVendor_def vendor_simps
          sid [unfolded plainVendor_def] notFound_def)
qed


text \<open>In general: when no group yields a match, only \<open>updatePrice\<close> reports it.\<close>

lemma getCurrentPrices_resource_unmatched:
  assumes "inAppPurchaseType iapData = autoRenewable"
    and "subscriptionGroups v = Ok groups"
    and "\<forall>g \<in> set groups. noMatch v (iap_productId iapData) g"
    and "iapId \<noteq> []"
  shows "getCurrentPrices_resource v iapId iapData
           = (Inr (iapId, ''inAppPurchases''), GetSubscriptionGroups # map GetSubscriptions groups)"
  using assms by (simp add: getCurrentPrices_resource_def scanGroups_noMatch)

lemma fetchPricePoints_resourceId_unmatched:
  assumes "inAppPurchaseType iapData = autoRenewable"
    and "subscriptionGroups v = Ok groups"
    and "\<forall>g \<in> set groups. noMatch v (iap_productId iapData) g"
  shows "fetchPricePoints_resourceId v iapId iapData
           = (Inr iapId, GetSubscriptionGroups # map GetSubscriptions groups)"
  using assms by (simp add: fetchPricePoints_resourceId_def scanGroups_noMatch)

lemma updatePrice_subscriptionId_unmatched:
  assumes "inAppPurchaseType iapData = autoRenewable"
    and "subscriptionGroups v = Ok groups"
    and "\<forall>g \<in> set groups. noMatch v (iap_productId iapData) g"
  shows "updatePrice_subscriptionId v iapData
           = (Inl notFound, GetSubscriptionGroups # map GetSubscriptions groups)"
  using assms by (simp add: updatePrice_subscriptionId_def scanGroups_noMatch)

text \<open>
  Claim C5, as amended. In \<open>getCurrentPrices\<close> and in \<open>updatePrice\<close>, a response
  that is not \<open>ok\<close> to the read of the product, or to the read of the subscription
  groups, ends the resolution with an error whose message carries the status and the
  text of the response, after that one request and no other. A response that is not
  \<open>ok\<close> to the read of the subscriptions of a group does not: the group is passed
  over and the scan goes on with the groups after it.
\<close>

theorem upstream_error_aborts_except_in_group_scan:
  "(inAppPurchases v iapId = NotOk st reason \<longrightarrow>
      getCurrentPrices v iapId
        = (Inl (Error (''Failed to fetch IAP details: '' @ showNat st @ '' '' @ reason)),
           [GetInAppPurchase iapId])
    \<and> updatePrice v now iapId terr pricePointId preserveCurrentPrice
        = (Inl (Error (''Failed to fetch IAP details: '' @ showNat st @ '' '' @ reason)),
           [GetInAppPurchase iapId]))
   \<and> (inAppPurchaseType iapData = autoRenewable \<and> subscriptionGroups v = NotOk st reason \<longrightarrow>
      getCurrentPrices_resource v iapId iapData
        = (Inl (Error (''Failed to fetch subscription groups: '' @ showNat st @ '' '' @ reason)),
           [GetSubscriptionGroups])
    \<and> updatePrice_subscriptionId v iapData
        = (Inl (Error (''Failed to fetch subscription groups: '' @ showNat st @ '' '' @ reason)),
           [GetSubscriptionGroups]))
   \<and> (subscriptions v grp = NotOk st reason \<longrightarrow>
      scanGroups v productId (grp # groups)
        = (fst (scanGroups v productId groups),
           GetSubscriptions grp # snd (scanGroups v productId groups)))"
  by (simp add: getCurrentPrices_def updatePrice_def getCurrentPrices_resource_def
      updatePrice_subscriptionId_def logged_def)

lemma showNat_examples:
  "showNat 404 = ''404''" "showNat 500 = ''500''" "showNat 503 = ''503''"
  by (simp_all add: showNat.simps digitChar_def)

theorem upstream_error_aborts_except_in_group_scan_witness:
  "getCurrentPrices downVendor ''monthly''
     = (Inl (Error ''Failed to fetch IAP details: 404 gone''), [GetInAppPurchase ''monthly''])
   \<and> updatePrice downVendor leapNoon ''monthly'' ''USA'' ''pp1'' True
     = (Inl (Error ''Failed to fetch IAP details: 404 gone''), [GetInAppPurchase ''monthly''])
   \<and> getCurrentPrices_resource downVendor ''monthly''
        \<lparr>iap_productId = ''com.app.monthly'', inAppPurchaseType = autoRenewable\<rparr>
     = (Inl (Error ''Failed to fetch subscription groups: 503 busy''), [GetSubscriptionGroups])
   \<and> updatePrice_subscriptionId downVendor
        \<lparr>iap_productId = ''com.app.monthly'', inAppPurchaseType = autoRenewable\<rparr>
     = (Inl (Error ''Failed to fetch subscription groups: 503 busy''), [GetSubscriptionGroups])
   \<and> scanGroups failingVendor ''com.app.monthly'' [''g1'', ''g2'', ''g3'']
     = (Inr (Some monthlySub), [GetSubscriptions ''g1'', GetSubscriptions ''g2''])"
proof -
  let ?iap = "\<lparr>iap_productId = ''com.app.monthly'', inAppPurchaseType = autoRenewable\<rparr>"
  have a: "inAppPurchases downVendor ''monthly'' = NotOk 404 ''gone''"
    by (simp add: downVendor_def)
  have b: "inAppPurchaseType ?iap = autoRenewable \<and> subscriptionGroups downVendor = NotOk 503 ''busy''"
    by (simp add: downVendor_def)
  have c: "subscriptions failingVendor ''g1'' = NotOk 500 ''boom''"
    by (simp add: failingVendor_def vendor_simps)
  have rest: "scanGroups failingVendor ''com.app.monthly'' [''g2'', ''g3'']
                = (Inr (Some monthlySub), [GetSubscriptions ''g2''])"
    by (simp add: failingVendor_def vendor_simps)
  note e1 = upstream_error_aborts_except_in_group_scan
    [where v = downVendor and iapId = "''monthly''" and st = 404 and reason = "''gone''"
       and now = leapNoon and terr = "''USA''" and pricePointId = "''pp1''"
       and preserveCurrentPrice = True, THEN conjunct1, THEN mp, OF a]
  note e2 = upstream_error_aborts_except_in_group_scan
    [where v = downVendor and iapId = "''monthly''" and st = 503 and reason = "''busy''"
       and iapData = ?iap, THEN conjunct2, THEN conjunct1, THEN mp, OF b]
  note e3 = upstream_error_aborts_except_in_group_scan
    [where v = failingVendor and grp = "''g1''" and st = 500 and reason = "''boom''"
       and productId = "''com.app.monthly''" and groups = "[''g2'', ''g3'']",
     THEN conjunct2, THEN conjunct2, THEN mp, OF c]
  from e1 e2 e3 show ?thesis
    unfolding rest by (simp add: showNat_examples)
qed

text \<open>The claim as it was stated fails at a group whose subscriptions cannot be
  listed: the first group answers 500, and the resolution does not abort but finds the
  subscription in the second group.\<close>

theorem failed_group_listing_is_skipped:
  "getCurrentPrices_resource failingVendor ''monthly''
     \<lparr>iap_productId = ''com.app.monthly'', inAppPurchaseType = autoRenewable\<rparr>
   = (Inr (''sub-monthly'', ''subscriptions''),
      [GetSubscriptionGroups, GetSubscriptions ''g1'', GetSubscriptions ''g2''])"
  by (simp add: getCurrentPrices_resource_def failingVendor_def vendor_simps)

lemma getCurrentPrices_requests:
  assumes "inAppPurchases v iapId = Ok iapData"
    and "getCurrentPrices_resource v iapId iapData = (Inr (resourceId, resourceType), reqs)"
  shows "snd (getCurrentPrices v iapId)
           = GetInAppPurchase iapId # reqs @ [GetPricesAt (pricesUrl resourceType resourceId)]"
  using assms by (simp add: getCurrentPrices_def logged_def split: response.splits)

text \<open>
  Claim C8. Resolving a product that is an automatically renewable subscription asks
  for the subscriptions of the groups in the order of the vendor's list and ends with
  the first group that yields a match: when the groups before it yield none, the
  resource is the first matching subscription of that group, and the requests made are
  the list of groups and then the groups up to that one, so that no group after it is
  asked for. This holds of the resolution in each of the three functions, and a call
  of \<open>getCurrentPrices\<close> goes on to read the prices of that subscription. When the
  product is not an automatically renewable subscription, the resource is the product
  itself and the resolution makes no request at all: a call of \<open>getCurrentPrices\<close>
  reads the product and then its prices.
\<close>

theorem group_scan_stops_at_first_match:
  "(inAppPurchaseType iapData = autoRenewable
      \<and> subscriptionGroups v = Ok (pre @ grp # post)
      \<and> (\<forall>g \<in> set pre. noMatch v (iap_productId iapData) g)
      \<and> subscriptions v grp = Ok subs
      \<and> find (\<lambda>sub. sub_productId sub = iap_productId iapData) subs = Some m
      \<and> sub_id m \<noteq> [] \<longrightarrow>
        getCurrentPrices_resource v iapId iapData
          = (Inr (sub_id m, ''subscriptions''),
             GetSubscriptionGroups # map GetSubscriptions (pre @ [grp]))
      \<and> fetchPricePoints_resourceId v iapId iapData
          = (Inr (sub_id m), GetSubscriptionGroups # map GetSubscriptions (pre @ [grp]))
      \<and> updatePrice_subscriptionId v iapData
          = (Inr (sub_id m), GetSubscriptionGroups # map GetSubscriptions (pre @ [grp]))
      \<and> (inAppPurchases v iapId = Ok iapData \<longrightarrow>
            snd (getCurrentPrices v iapId)
              = GetInAppPurchase iapId # GetSubscriptionGroups
                  # map GetSubscriptions (pre @ [grp])
                  @ [GetPricesAt (pricesUrl ''subscriptions'' (sub_id m))]))
   \<and> ((\<forall>g \<in> set pre. noMatch v productId g) \<and> subscriptions v grp = Ok subs
      \<and> find (\<lambda>sub. sub_productId sub = productId) subs = Some m \<longrightarrow>
      scanGroups v productId (pre @ grp # post)
        = (Inr (Some m), map GetSubscriptions (pre @ [grp])))
   \<and> (inAppPurchaseType iapData \<noteq> autoRenewable \<longrightarrow>
        getCurrentPrices_resource v iapId iapData = (Inr (iapId, ''inAppPurchases''), [])
      \<and> fetchPricePoints_resourceId v iapId iapData = (Inr iapId, [])
      \<and> snd (updatePrice_subscriptionId v iapData) = []
      \<and> (inAppPurchases v iapId = Ok iapData \<longrightarrow>
            snd (getCurrentPrices v iapId)
              = [GetInAppPurchase iapId, GetPricesAt (pricesUrl ''inAppPurchases'' iapId)]))"
proof (intro conjI impI)
  assume h: "inAppPurchaseType iapData = autoRenewable
      \<and> subscriptionGroups v = Ok (pre @ grp # post)
      \<and> (\<forall>g \<in> set pre. noMatch v (iap_productId iapData) g)
      \<and> subscriptions v grp = Ok subs
      \<and> find (\<lambda>sub. sub_productId sub = iap_productId iapData) subs = Some m
      \<and> sub_id m \<noteq> []"
  then have scan: "scanGroups v (iap_productId iapData) (pre @ grp # post)
                     = (Inr (Some m), map GetSubscriptions (pre @ [grp]))"
    by (simp add: scanGroups_first_match)
  show res: "getCurrentPrices_resource v iapId iapData
          = (Inr (sub_id m, ''subscriptions''),
             GetSubscriptionGroups # map GetSubscriptions (pre @ [grp]))"
    using h by (simp add: getCurrentPrices_resource_def scan)
  show "fetchPricePoints_resourceId v iapId iapData
          = (Inr (sub_id m), GetSubscriptionGroups # map GetSubscriptions (pre @ [grp]))"
    using h by (simp add: fetchPricePoints_resourceId_def scan)
  show "updatePrice_subscriptionId v iapData
          = (Inr (sub_id m), GetSubscriptionGroups # map GetSubscriptions (pre @ [grp]))"
    using h by (simp add: updatePrice_subscriptionId_def scan)
  assume "inAppPurchases v iapId = Ok iapData"
  from getCurrentPrices_requests [OF this res]
  show "snd (getCurrentPrices v iapId)
              = GetInAppPurchase iapId # GetSubscriptionGroups
                  # map GetSubscriptions (pre @ [grp])
                  @ [GetPricesAt (pricesUrl ''subscriptions'' (sub_id m))]"
    by simp
next
  assume "(\<forall>g \<in> set pre. noMatch v productId g) \<and> subscriptions v grp = Ok subs
      \<and> find (\<lambda>sub. sub_productId sub = productId) subs = Some m"
  then show "scanGroups v productId (pre @ grp # post)
        = (Inr (Some m), map GetSubscriptions (pre @ [grp]))"
    by (simp add: scanGroups_first_match)
next
  assume plain: "inAppPurchaseType iapData \<noteq> autoRenewable"
  show res: "getCurrentPrices_resource v iapId iapData = (Inr (iapId, ''inAppPurchases''), [])"
    using plain by (simp add: getCurrentPrices_resource_def)
  show "fetchPricePoints_resourceId v iapId iapData = (Inr iapId, [])"
    using plain by (simp add: fetchPricePoints_resourceId_def)
  show "snd (updatePrice_subscriptionId v iapData) = []"
    using plain by (simp add: updatePrice_subscriptionId_def)
  assume "inAppPurchases v iapId = Ok iapData"
  from getCurrentPrices_requests [OF this res]
  show "snd (getCurrentPrices v iapId)
              = [GetInAppPurchase iapId, GetPricesAt (pricesUrl ''inAppPurchases'' iapId)]"
    by simp
qed

theorem group_scan_stops_at_first_match_witness:
  "subscriptionGroups plainVendor = Ok [''g1'', ''g2'', ''g3'']
   \<and> noMatch plainVendor ''com.app.monthly'' ''g1''
   \<and> getCurrentPrices_resource plainVendor ''monthly''
        \<lparr>iap_productId = ''com.app.monthly'', inAppPurchaseType = autoRenewable\<rparr>
       = (Inr (''sub-monthly'', ''subscriptions''),
          [GetSubscriptionGroups, GetSubscriptions ''g1'', GetSubscriptions ''g2''])
   \<and> snd (getCurrentPrices plainVendor ''monthly'')
       = [GetInAppPurchase ''monthly'', GetSubscriptionGroups, GetSubscriptions ''g1'',
          GetSubscriptions ''g2'', GetPricesAt (pricesUrl ''subscriptions'' ''sub-monthly'')]
   \<and> fetchPricePoints_resourceId plainVendor ''monthly''
        \<lparr>iap_productId = ''com.app.monthly'', inAppPurchaseType = autoRenewable\<rparr>
       = (Inr ''sub-monthly'',
          [GetSubscriptionGroups, GetSubscriptions ''g1'', GetSubscriptions ''g2''])
   \<and> updatePrice_subscriptionId plainVendor
        \<lparr>iap_productId = ''com.app.monthly'', inAppPurchaseType = autoRenewable\<rparr>
       = (Inr ''sub-monthly'',
          [GetSubscriptionGroups, GetSubscriptions ''g1'', GetSubscriptions ''g2''])
   \<and> getCurrentPrices_resource plainVendor ''coins''
        \<lparr>iap_productId = ''com.app.coins'', inAppPurchaseType = ''CONSUMABLE''\<rparr>
       = (Inr (''coins'', ''inAppPurchases''), [])
   \<and> snd (getCurrentPrices plainVendor ''coins'')
       = [GetInAppPurchase ''coins'', GetPricesAt (pricesUrl ''inAppPurchases'' ''coins'')]"
proof -
  let ?sub = "\<lparr>iap_productId = ''com.app.monthly'', inAppPurchaseType = autoRenewable\<rparr>"
  let ?coins = "\<lparr>iap_productId = ''com.app.coins'', inAppPurchaseType = ''CONSUMABLE''\<rparr>"
  have groups: "subscriptionGroups plainVendor = Ok [''g1'', ''g2'', ''g3'']"
    by (simp add: plainVendor_def vendor_simps)
  have g1: "noMatch plainVendor ''com.app.monthly'' ''g1''"
    by (simp add: plainVendor_def vendor_simps)
  have h: "inAppPurchaseType ?sub = autoRenewable
      \<and> subscriptionGroups plainVendor = Ok ([''g1''] @ ''g2'' # [''g3''])
      \<and> (\<forall>g \<in> set [''g1'']. noMatch plainVendor (iap_productId ?sub) g)
      \<and> subscriptions plainVendor ''g2''
          = Ok [\<lparr>sub_id = ''sub-yearly'', sub_productId = ''com.app.yearly''\<rparr>, monthlySub]
      \<and> find (\<lambda>sub. sub_productId sub = iap_productId ?sub)
            [\<lparr>sub_id = ''sub-yearly'', sub_productId = ''com.app.yearly''\<rparr>, monthlySub]
          = Some monthlySub
      \<and> sub_id monthlySub \<noteq> []"
    using g1 by (simp add: plainVendor_def vendor_simps)
  have k: "inAppPurchaseType ?coins \<noteq> autoRenewable"
    by (simp add: consumable_not_renewable)
  have iapSub: "inAppPurchases plainVendor ''monthly'' = Ok ?sub"
    by (simp add: plainVendor_def vendor_simps)
  have iapCoins: "inAppPurchases plainVendor ''coins'' = Ok ?coins"
    by (simp add: plainVendor_def vendor_simps)
  have id: "sub_id monthlySub = ''sub-monthly''"
    by (simp add: monthlySub_def)
  note sub = group_scan_stops_at_first_match
    [where v = plainVendor and iapData = ?sub and iapId = "''monthly''" and pre = "[''g1'']"
       and grp = "''g2''" and post = "[''g3'']" and m = monthlySub,
     THEN conjunct1, THEN mp, OF h]
  note plain = group_scan_stops_at_first_match
    [where v = plainVendor and iapData = ?coins and iapId = "''coins''",
     THEN conjunct2, THEN conjunct2, THEN mp, OF k]
  note s1 = sub [THEN conjunct1]
  note s2 = sub [THEN conjunct2, THEN conjunct1]
  note s3 = sub [THEN conjunct2, THEN conjunct2, THEN conjunct1]
  note s4 = sub [THEN conjunct2, THEN conjunct2, THEN conjunct2, THEN mp, OF iapSub]
  note p1 = plain [THEN conjunct1]
  note p4 = plain [THEN conjunct2, THEN conjunct2, THEN conjunct2, THEN mp, OF iapCoins]
  from groups g1 s1 s2 s3 s4 p1 p4 show ?thesis
    by (simp add: id)
qed

section \<open>The pages of price points\<close>

lemma followNext_linked:
  "linked v nextUrl pages final
   \<Longrightarrow> followNext v nextUrl allPricePoints reqs
       = followNext v final (allPricePoints @ concat (map (page_data \<circ> snd) pages))
           (reqs @ map (GetPricePointsAt \<circ> fst) pages)"
proof (induction pages arbitrary: nextUrl allPricePoints reqs)
  case Nil
  then show ?case by simp
next
  case (Cons p pages)
  obtain url page where p: "p = (url, page)" by (cases p)
  from Cons.prems p have url: "nextUrl = Some url" "url \<noteq> []" "pricePointsAt v url = Ok page"
    and rest: "linked v (links_next page) pages final"
    by simp_all
  have "followNext v nextUrl allPricePoints reqs
          = followNext v (links_next page) (allPricePoints @ page_data page)
              (reqs @ [GetPricePointsAt url])"
    by (subst followNext.simps) (simp add: url)
  also have "\<dots> = followNext v final
                     ((allPricePoints @ page_data page) @ concat (map (page_data \<circ> snd) pages))
                     ((reqs @ [GetPricePointsAt url]) @ map (GetPricePointsAt \<circ> fst) pages)"
    by (rule Cons.IH [OF rest])
  finally show ?case by (simp add: p comp_def)
qed

lemma followNext_failed_page:
  "url \<noteq> [] \<Longrightarrow> pricePointsAt v url = NotOk st reason
   \<Longrightarrow> followNext v (Some url) allPricePoints reqs
       = Some (Inr allPricePoints, reqs @ [GetPricePointsAt url])"
  by (subst followNext.simps) simp

lemma linked_first:
  "linked v (Some endpoint) pages final \<Longrightarrow> pages \<noteq> []
   \<Longrightarrow> \<exists>page rest. pages = (endpoint, page) # rest \<and> pricePointsAt v endpoint = Ok page
         \<and> linked v (links_next page) rest final"
  by (cases pages) auto

lemma followNext_rejected_page:
  "url \<noteq> [] \<Longrightarrow> pricePointsAt v url = FetchFailed
   \<Longrightarrow> followNext v (Some url) allPricePoints reqs
       = Some (Inl fetchRejected, reqs @ [GetPricePointsAt url])"
  by (subst followNext.simps) simp

lemma later_page_rejected:
  assumes iap: "inAppPurchases v iapId = Ok iapData"
    and rid: "fetchPricePoints_resourceId v iapId iapData = (Inr resourceId, reqs)"
    and endpoint: "endpoint = pricePointsUrl (inAppPurchaseType iapData = autoRenewable)
                                resourceId iapId terr"
    and pages: "linked v (Some endpoint) pages (Some url)" "pages \<noteq> []"
    and url: "url \<noteq> []" "pricePointsAt v url = FetchFailed"
  shows "fetchPricePointsForIAPAndTerritory v iapId terr
           = Some (Inl fetchRejected,
                   GetInAppPurchase iapId # reqs @ map (GetPricePointsAt \<circ> fst) pages
                     @ [GetPricePointsAt url])"
proof -
  from pages obtain page rest where split: "pages = (endpoint, page) # rest"
    and first: "pricePointsAt v endpoint = Ok page"
    and rest: "linked v (links_next page) rest (Some url)"
    using linked_first by blast
  have "followNext v (links_next page) (page_data page)
          (GetInAppPurchase iapId # reqs @ [GetPricePointsAt endpoint])
        = Some (Inl fetchRejected,
                ((GetInAppPurchase iapId # reqs @ [GetPricePointsAt endpoint])
                  @ map (GetPricePointsAt \<circ> fst) rest) @ [GetPricePointsAt url])"
    using url by (simp add: followNext_linked [OF rest] followNext_rejected_page)
  with iap rid endpoint first show ?thesis
    by (simp add: fetchPricePointsForIAPAndTerritory_def split)
qed

text \<open>
  Claim C6, as amended. Once the resource is resolved, the fetch of the price points of
  a territory does the following. If the first page does not come back \<open>ok\<close>, the call
  throws an error that carries the status and not the body. If the vendor serves pages
  linked by \<open>next\<close> up to a page with no further link, the call returns the items of
  all the pages, each once and in order. If the pages are served up to a link whose
  page does not come back \<open>ok\<close>, the call returns the items of the pages before it.
  If the request for a page is rejected, the first page or a later one, the call
  throws the rejection, and the items of the pages before it are not returned.
\<close>

theorem price_points_pages_are_merged:
  assumes "inAppPurchases v iapId = Ok iapData"
    and "fetchPricePoints_resourceId v iapId iapData = (Inr resourceId, reqs)"
    and "endpoint = pricePointsUrl (inAppPurchaseType iapData = autoRenewable) resourceId iapId terr"
  shows "(pricePointsAt v endpoint = NotOk st reason \<longrightarrow>
            fetchPricePointsForIAPAndTerritory v iapId terr
              = Some (Inl (Error (''Failed to fetch price points: '' @ showNat st)),
                      GetInAppPurchase iapId # reqs @ [GetPricePointsAt endpoint]))
       \<and> (linked v (Some endpoint) pages final \<and> pages \<noteq> [] \<and> noFurtherPage final \<longrightarrow>
            fetchPricePointsForIAPAndTerritory v iapId terr
              = Some (Inr (map toOption (concat (map (page_data \<circ> snd) pages))),
                      GetInAppPurchase iapId # reqs @ map (GetPricePointsAt \<circ> fst) pages))
       \<and> (linked v (Some endpoint) pages (Some url) \<and> pages \<noteq> [] \<and> url \<noteq> []
            \<and> pricePointsAt v url = NotOk st reason \<longrightarrow>
            fetchPricePointsForIAPAndTerritory v iapId terr
              = Some (Inr (map toOption (concat (map (page_data \<circ> snd) pages))),
                      GetInAppPurchase iapId # reqs @ map (GetPricePointsAt \<circ> fst) pages
                        @ [GetPricePointsAt url]))
       \<and> (pricePointsAt v endpoint = FetchFailed \<longrightarrow>
            fetchPricePointsForIAPAndTerritory v iapId terr
              = Some (Inl fetchRejected,
                      GetInAppPurchase iapId # reqs @ [GetPricePointsAt endpoint]))
       \<and> (linked v (Some endpoint) pages (Some url) \<and> pages \<noteq> [] \<and> url \<noteq> []
            \<and> pricePointsAt v url = FetchFailed \<longrightarrow>
            fetchPricePointsForIAPAndTerritory v iapId terr
              = Some (Inl fetchRejected,
                      GetInAppPurchase iapId # reqs @ map (GetPricePointsAt \<circ> fst) pages
                        @ [GetPricePointsAt url]))"
proof (intro conjI impI)
  assume "pricePointsAt v endpoint = NotOk st reason"
  with assms show "fetchPricePointsForIAPAndTerritory v iapId terr
              = Some (Inl (Error (''Failed to fetch price points: '' @ showNat st)),
                      GetInAppPurchase iapId # reqs @ [GetPricePointsAt endpoint])"
    by (simp add: fetchPricePointsForIAPAndTerritory_def)
next
  assume h: "linked v (Some endpoint) pages final \<and> pages \<noteq> [] \<and> noFurtherPage final"
  then obtain page rest where pages: "pages = (endpoint, page) # rest"
    and first: "pricePointsAt v endpoint = Ok page"
    and rest: "linked v (links_next page) rest final"
    using linked_first by blast
  have "followNext v (links_next page) (page_data page)
          (GetInAppPurchase iapId # reqs @ [GetPricePointsAt endpoint])
        = Some (Inr (page_data page @ concat (map (page_data \<circ> snd) rest)),
                (GetInAppPurchase iapId # reqs @ [GetPricePointsAt endpoint])
                  @ map (GetPricePointsAt \<circ> fst) rest)"
    using h by (simp add: followNext_linked [OF rest] followNext_end)
  with assms first show "fetchPricePointsForIAPAndTerritory v iapId terr
              = Some (Inr (map toOption (concat (map (page_data \<circ> snd) pages))),
                      GetInAppPurchase iapId # reqs @ map (GetPricePointsAt \<circ> fst) pages)"
    by (simp add: fetchPricePointsForIAPAndTerritory_def pages)
next
  assume h: "linked v (Some endpoint) pages (Some url) \<and> pages \<noteq> [] \<and> url \<noteq> []
            \<and> pricePointsAt v url = NotOk st reason"
  then obtain page rest where pages: "pages = (endpoint, page) # rest"
    and first: "pricePointsAt v endpoint = Ok page"
    and rest: "linked v (links_next page) rest (Some url)"
    using linked_first by blast
  have "followNext v (links_next page) (page_data page)
          (GetInAppPurchase iapId # reqs @ [GetPricePointsAt endpoint])
        = Some (Inr (page_data page @ concat (map (page_data \<circ> snd) rest)),
                ((GetInAppPurchase iapId # reqs @ [GetPricePointsAt endpoint])
                  @ map (GetPricePointsAt \<circ> fst) rest) @ [GetPricePointsAt url])"
    using h by (simp add: followNext_linked [OF rest] followNext_failed_page)
  with assms first show "fetchPricePointsForIAPAndTerritory v iapId terr
              = Some (Inr (map toOption (concat (map (page_data \<circ> snd) pages))),
                      GetInAppPurchase iapId # reqs @ map (GetPricePointsAt \<circ> fst) pages
                        @ [GetPricePointsAt url])"
    by (simp add: fetchPricePointsForIAPAndTerritory_def pages)
next
  assume "pricePointsAt v endpoint = FetchFailed"
  with assms show "fetchPricePointsForIAPAndTerritory v iapId terr
              = Some (Inl fetchRejected,
                      GetInAppPurchase iapId # reqs @ [GetPricePointsAt endpoint])"
    by (simp add: fetchPricePointsForIAPAndTerritory_def)
next
  assume h: "linked v (Some endpoint) pages (Some url) \<and> pages \<noteq> [] \<and> url \<noteq> []
            \<and> pricePointsAt v url = FetchFailed"
  with assms show "fetchPricePointsForIAPAndTerritory v iapId terr
              = Some (Inl fetchRejected,
                      GetInAppPurchase iapId # reqs @ map (GetPricePointsAt \<circ> fst) pages
                        @ [GetPricePointsAt url])"
    by (simp add: later_page_rejected)
qed

lemma showNat_nonempty: "showNat n \<noteq> []"
  by (subst showNat.simps) simp

lemma digitChar_inj: "a < 10 \<Longrightarrow> b < 10 \<Longrightarrow> digitChar a = digitChar b \<Longrightarrow> a = b"
proof -
  assume a: "a < 10" and b: "b < 10" and eq: "digitChar a = digitChar b"
  have d: "distinct ''0123456789''" by simp
  have "a < length ''0123456789''" "b < length ''0123456789''" using a b by simp_all
  with d eq show "a = b" unfolding digitChar_def by (simp only: nth_eq_iff_index_eq)
qed

lemma showNat_inj: "showNat a = showNat b \<Longrightarrow> a = b"
proof (induction a arbitrary: b rule: showNat.induct)
  case (1 n)
  show ?case
  proof (cases "n < 10")
    case small: True
    show ?thesis
    proof (cases "b < 10")
      case True
      with small "1.prems" show ?thesis
        by (simp add: showNat.simps [of n] showNat.simps [of b] digitChar_inj)
    next
      case False
      with small "1.prems" showNat_nonempty [of "b div 10"] show ?thesis
        by (simp add: showNat.simps [of n] showNat.simps [of b])
    qed
  next
    case large: False
    show ?thesis
    proof (cases "b < 10")
      case True
      with large "1.prems" showNat_nonempty [of "n div 10"] show ?thesis
        by (simp add: showNat.simps [of n] showNat.simps [of b])
    next
      case False
      with large "1.prems"
      have parts: "showNat (n div 10) = showNat (b div 10)" "digitChar (n mod 10) = digitChar (b mod 10)"
        by (simp_all add: showNat.simps [of n] showNat.simps [of b])
      from "1.IH" [OF large parts(1)] have "n div 10 = b div 10" .
      moreover from parts(2) have "n mod 10 = b mod 10" by (simp add: digitChar_inj)
      ultimately show ?thesis by (metis div_mult_mod_eq)
    qed
  qed
qed

lemma examplePages_simps:
  "examplePages third coinsUrl = Ok page1"
  "examplePages third ''https://next/2'' = Ok page2"
  "examplePages third ''https://next/3'' = third"
  "coinsUrl \<noteq> []"
  by (simp_all add: examplePages_def coinsUrl_def pricePointsUrl_def vendorApi_def)

lemma page_fields:
  "links_next page1 = Some ''https://next/2''" "links_next page2 = Some ''https://next/3''"
  "links_next page3 = None"
  "page_data page1 = somePoints 0 200" "page_data page2 = somePoints 200 400"
  "page_data page3 = somePoints 400 450"
  by (simp_all add: page1_def page2_def page3_def)

lemma coins_resourceId:
  "fetchPricePoints_resourceId (exampleVendor first third) ''coins''
     \<lparr>iap_productId = ''com.app.coins'', inAppPurchaseType = ''CONSUMABLE''\<rparr>
   = (Inr ''coins'', [])"
  by (simp add: fetchPricePoints_resourceId_def consumable_not_renewable)

lemma coins_endpoint:
  "coinsUrl = pricePointsUrl
     (inAppPurchaseType \<lparr>iap_productId = ''com.app.coins'', inAppPurchaseType = ''CONSUMABLE''\<rparr>
        = autoRenewable) ''coins'' ''coins'' ''USA''"
  by (simp add: coinsUrl_def consumable_not_renewable)

lemma somePoints_append:
  "lo \<le> mid \<Longrightarrow> mid \<le> hi \<Longrightarrow> somePoints lo mid @ somePoints mid hi = somePoints lo hi"
proof -
  assume a: "lo \<le> mid" and b: "mid \<le> hi"
  from b obtain k where hi: "hi = mid + k" by (auto simp: le_iff_add)
  have "[lo..<mid + k] = [lo..<mid] @ [mid..<mid + k]"
    using a by (rule upt_add_eq_append)
  then show ?thesis
    unfolding somePoints_def hi by (simp only: map_append)
qed

lemma somePoints_length: "length (somePoints lo hi) = hi - lo"
  by (simp add: somePoints_def)

lemma somePoints_ids: "map (pp_id \<circ> toOption) (somePoints lo hi) = map showNat [lo..<hi]"
  by (simp add: somePoints_def toOption_def mkPoint_def)

lemma somePoints_distinct: "distinct (map (pp_id \<circ> toOption) (somePoints lo hi))"
  unfolding somePoints_ids by (simp add: distinct_map inj_on_def showNat_inj)

theorem price_points_pages_are_merged_witness:
  "linked plainVendor (Some coinsUrl)
     [(coinsUrl, page1), (''https://next/2'', page2), (''https://next/3'', page3)] None
   \<and> length (page_data page1) = 200 \<and> length (page_data page2) = 200
   \<and> length (page_data page3) = 50
   \<and> fetchPricePointsForIAPAndTerritory plainVendor ''coins'' ''USA''
       = Some (Inr (map toOption (somePoints 0 450)),
               [GetInAppPurchase ''coins'', GetPricePointsAt coinsUrl,
                GetPricePointsAt ''https://next/2'', GetPricePointsAt ''https://next/3''])
   \<and> length (map toOption (somePoints 0 450)) = 450
   \<and> distinct (map pp_id (map toOption (somePoints 0 450)))
   \<and> fetchPricePointsForIAPAndTerritory busyVendor ''coins'' ''USA''
       = Some (Inr (map toOption (somePoints 0 400)),
               [GetInAppPurchase ''coins'', GetPricePointsAt coinsUrl,
                GetPricePointsAt ''https://next/2'', GetPricePointsAt ''https://next/3''])
   \<and> fetchPricePointsForIAPAndTerritory closedVendor ''coins'' ''USA''
       = Some (Inl (Error ''Failed to fetch price points: 429''),
               [GetInAppPurchase ''coins'', GetPricePointsAt coinsUrl])
   \<and> fetchPricePointsForIAPAndTerritory offlineVendor ''coins'' ''USA''
       = Some (Inl fetchRejected, [GetInAppPurchase ''coins'', GetPricePointsAt coinsUrl])
   \<and> fetchPricePointsForIAPAndTerritory (exampleVendor (Ok []) FetchFailed) ''coins'' ''USA''
       = Some (Inl fetchRejected,
               [GetInAppPurchase ''coins'', GetPricePointsAt coinsUrl,
                GetPricePointsAt ''https://next/2'', GetPricePointsAt ''https://next/3''])"
proof -
  let ?iap = "\<lparr>iap_productId = ''com.app.coins'', inAppPurchaseType = ''CONSUMABLE''\<rparr>"
  let ?pages = "[(coinsUrl, page1), (''https://next/2'', page2), (''https://next/3'', page3)]"
  let ?lost = "exampleVendor (Ok []) FetchFailed"
  have iap: "inAppPurchases plainVendor ''coins'' = Ok ?iap"
    "inAppPurchases busyVendor ''coins'' = Ok ?iap"
    "inAppPurchases closedVendor ''coins'' = Ok ?iap"
    "inAppPurchases offlineVendor ''coins'' = Ok ?iap"
    "inAppPurchases ?lost ''coins'' = Ok ?iap"
    by (simp_all add: plainVendor_def busyVendor_def closedVendor_def offlineVendor_def
        vendor_simps)
  have rid: "fetchPricePoints_resourceId plainVendor ''coins'' ?iap = (Inr ''coins'', [])"
    "fetchPricePoints_resourceId busyVendor ''coins'' ?iap = (Inr ''coins'', [])"
    "fetchPricePoints_resourceId closedVendor ''coins'' ?iap = (Inr ''coins'', [])"
    "fetchPricePoints_resourceId offlineVendor ''coins'' ?iap = (Inr ''coins'', [])"
    "fetchPricePoints_resourceId ?lost ''coins'' ?iap = (Inr ''coins'', [])"
    by (simp_all add: fetchPricePoints_resourceId_def consumable_not_renewable)
  have all: "linked plainVendor (Some coinsUrl) ?pages None"
    by (simp add: plainVendor_def vendor_simps examplePages_simps page_fields)
  have two: "linked busyVendor (Some coinsUrl) [(coinsUrl, page1), (''https://next/2'', page2)]
               (Some ''https://next/3'')"
    by (simp add: busyVendor_def vendor_simps examplePages_simps page_fields)
  have two': "linked ?lost (Some coinsUrl) [(coinsUrl, page1), (''https://next/2'', page2)]
               (Some ''https://next/3'')"
    by (simp add: vendor_simps examplePages_simps page_fields)
  have third: "pricePointsAt busyVendor ''https://next/3'' = NotOk 503 ''busy''"
    by (simp add: busyVendor_def vendor_simps examplePages_simps)
  have third': "pricePointsAt ?lost ''https://next/3'' = FetchFailed"
    by (simp add: vendor_simps examplePages_simps)
  have none: "pricePointsAt closedVendor coinsUrl = NotOk 429 ''slow''"
    by (simp add: closedVendor_def)
  have off: "pricePointsAt offlineVendor coinsUrl = FetchFailed"
    by (simp add: offlineVendor_def)
  have m2: "somePoints 0 200 @ somePoints 200 400 = somePoints 0 400"
    by (rule somePoints_append) simp_all
  have m3: "somePoints 0 400 @ somePoints 400 450 = somePoints 0 450"
    by (rule somePoints_append) simp_all
  have items3: "concat (map (page_data \<circ> snd) ?pages) = somePoints 0 450"
    by (simp add: page_fields m2 [symmetric] m3 [symmetric])
  have items2: "concat (map (page_data \<circ> snd) [(coinsUrl, page1), (''https://next/2'', page2)])
                  = somePoints 0 400"
    by (simp add: page_fields m2 [symmetric])
  have full: "fetchPricePointsForIAPAndTerritory plainVendor ''coins'' ''USA''
       = Some (Inr (map toOption (somePoints 0 450)),
               [GetInAppPurchase ''coins'', GetPricePointsAt coinsUrl,
                GetPricePointsAt ''https://next/2'', GetPricePointsAt ''https://next/3''])"
    using price_points_pages_are_merged [OF iap(1) rid(1) coins_endpoint,
        where pages = ?pages and final = None, THEN conjunct2, THEN conjunct1] all
    unfolding items3 by (simp add: noFurtherPage_def)
  have cut: "fetchPricePointsForIAPAndTerritory busyVendor ''coins'' ''USA''
       = Some (Inr (map toOption (somePoints 0 400)),
               [GetInAppPurchase ''coins'', GetPricePointsAt coinsUrl,
                GetPricePointsAt ''https://next/2'', GetPricePointsAt ''https://next/3''])"
    using price_points_pages_are_merged [OF iap(2) rid(2) coins_endpoint,
        where pages = "[(coinsUrl, page1), (''https://next/2'', page2)]"
          and url = "''https://next/3''" and st = 503 and reason = "''busy''",
        THEN conjunct2, THEN conjunct2, THEN conjunct1] two third
    unfolding items2 by simp
  have fail: "fetchPricePointsForIAPAndTerritory closedVendor ''coins'' ''USA''
       = Some (Inl (Error ''Failed to fetch price points: 429''),
               [GetInAppPurchase ''coins'', GetPricePointsAt coinsUrl])"
    using price_points_pages_are_merged [OF iap(3) rid(3) coins_endpoint,
        where st = 429 and reason = "''slow''", THEN conjunct1] none
    by (simp add: showNat.simps digitChar_def)
  have rejected: "fetchPricePointsForIAPAndTerritory offlineVendor ''coins'' ''USA''
       = Some (Inl fetchRejected, [GetInAppPurchase ''coins'', GetPricePointsAt coinsUrl])"
    using price_points_pages_are_merged [OF iap(4) rid(4) coins_endpoint,
        THEN conjunct2, THEN conjunct2, THEN conjunct2, THEN conjunct1] off
    by simp
  have lost: "fetchPricePointsForIAPAndTerritory ?lost ''coins'' ''USA''
       = Some (Inl fetchRejected,
               [GetInAppPurchase ''coins'', GetPricePointsAt coinsUrl,
                GetPricePointsAt ''https://next/2'', GetPricePointsAt ''https://next/3''])"
    using price_points_pages_are_merged [OF iap(5) rid(5) coins_endpoint,
        where pages = "[(coinsUrl, page1), (''https://next/2'', page2)]"
          and url = "''https://next/3''",
        THEN conjunct2, THEN conjunct2, THEN conjunct2, THEN conjunct2] two' third'
    by simp
  have dist: "distinct (map pp_id (map toOption (somePoints 0 450)))"
    using somePoints_distinct [of 0 450] by simp
  from all full cut fail rejected lost dist show ?thesis
    by (simp add: page_fields somePoints_length)
qed

text \<open>The claim as it was stated fails at a later page whose request is rejected: with
  two pages of 200 items fetched and the request for the third page rejected, the call
  throws the rejection and returns none of the 400 items.\<close>

theorem rejected_later_page_fails_the_call:
  "pricePointsAt cutVendor coinsUrl = Ok page1
   \<and> pricePointsAt cutVendor ''https://next/2'' = Ok page2
   \<and> length (page_data page1 @ page_data page2) = 400
   \<and> pricePointsAt cutVendor ''https://next/3'' = FetchFailed
   \<and> fetchPricePointsForIAPAndTerritory cutVendor ''coins'' ''USA''
       = Some (Inl fetchRejected,
               [GetInAppPurchase ''coins'', GetPricePointsAt coinsUrl,
                GetPricePointsAt ''https://next/2'', GetPricePointsAt ''https://next/3''])"
proof -
  let ?iap = "\<lparr>iap_productId = ''com.app.coins'', inAppPurchaseType = ''CONSUMABLE''\<rparr>"
  have iap: "inAppPurchases cutVendor ''coins'' = Ok ?iap"
    by (simp add: cutVendor_def vendor_simps)
  have rid: "fetchPricePoints_resourceId cutVendor ''coins'' ?iap = (Inr ''coins'', [])"
    by (simp add: fetchPricePoints_resourceId_def consumable_not_renewable)
  have served: "pricePointsAt cutVendor coinsUrl = Ok page1"
    "pricePointsAt cutVendor ''https://next/2'' = Ok page2"
    by (simp_all add: cutVendor_def vendor_simps examplePages_simps)
  have two: "linked cutVendor (Some coinsUrl) [(coinsUrl, page1), (''https://next/2'', page2)]
               (Some ''https://next/3'')"
    by (simp add: cutVendor_def vendor_simps examplePages_simps page_fields)
  have third: "pricePointsAt cutVendor ''https://next/3'' = FetchFailed"
    by (simp add: cutVendor_def vendor_simps examplePages_simps)
  have "fetchPricePointsForIAPAndTerritory cutVendor ''coins'' ''USA''
       = Some (Inl fetchRejected,
               GetInAppPurchase ''coins'' # []
                 @ map (GetPricePointsAt \<circ> fst) [(coinsUrl, page1), (''https://next/2'', page2)]
                 @ [GetPricePointsAt ''https://next/3''])"
    by (rule later_page_rejected [OF iap rid coins_endpoint two _ _ third]) simp_all
  with served third show ?thesis
    by (simp add: page_fields somePoints_length)
qed

section \<open>The submission of a price\<close>

lemma splitAcc_head:
  "sep \<notin> set xs \<Longrightarrow> splitAcc sep cur (xs @ sep # ys) ! 0 = rev cur @ xs"
  by (induction xs arbitrary: cur) auto

lemma digitChar_digit: "k < 10 \<Longrightarrow> digitChar k \<in> set ''0123456789''"
  unfolding digitChar_def by (rule nth_mem) simp

lemma showNat_digits: "set (showNat n) \<subseteq> set ''0123456789''"
proof (induction n rule: showNat.induct)
  case (1 n)
  show ?case
  proof (cases "n < 10")
    case True
    then show ?thesis
      using digitChar_digit [of n] by (subst showNat.simps) simp
  next
    case False
    have "n mod 10 < 10" by simp
    then have "digitChar (n mod 10) \<in> set ''0123456789''" by (rule digitChar_digit)
    with False "1.IH" show ?thesis
      by (subst showNat.simps) simp
  qed
qed

lemma showNat_no_time: "CHR ''T'' \<notin> set (showNat n)"
proof
  assume "CHR ''T'' \<in> set (showNat n)"
  with showNat_digits [of n] have "CHR ''T'' \<in> set ''0123456789''" by blast
  then show False by simp
qed

lemma pad_no_time: "CHR ''T'' \<notin> set (pad k (showNat n))"
  by (simp add: pad_def showNat_no_time)

lemma isoYear_no_time: "CHR ''T'' \<notin> set (isoYear y)"
  by (simp add: isoYear_def pad_no_time)

lemma isoDate_no_time: "CHR ''T'' \<notin> set (isoDate days)"
proof -
  obtain y m d where c: "civilFromDays days = (y, m, d)" by (cases "civilFromDays days")
  show ?thesis
    by (simp add: isoDate_def c isoYear_no_time pad_no_time)
qed

lemma formattedStartDate_day: "formattedStartDate c = isoDate (startTime c div msPerDay)"
  by (simp add: formattedStartDate_def toISOString_def str_split_def
      splitAcc_head [OF isoDate_no_time])

lemma startTime_same_offset:
  assumes "offsetAtLocal c (localTime c + 2 * msPerDay) = offsetAtUTC c (timeValue c)"
  shows "startTime c div msPerDay = timeValue c div msPerDay + 2"
proof -
  have "startTime c = timeValue c + 2 * msPerDay"
    unfolding startTime_def assms by (simp add: localTime_def)
  moreover have "(timeValue c + 2 * msPerDay) div msPerDay = timeValue c div msPerDay + 2"
    by (simp add: msPerDay_def)
  ultimately show ?thesis by simp
qed

lemma scanGroups_reads_only: "filter isPost (snd (scanGroups v productId groups)) = []"
  by (induction groups) (simp_all add: logged_def split: response.splits option.splits)

lemma updatePrice_subscriptionId_reads_only:
  "filter isPost (snd (updatePrice_subscriptionId v iapData)) = []"
proof (cases "inAppPurchaseType iapData = autoRenewable")
  case False
  then show ?thesis by (simp add: updatePrice_subscriptionId_def)
next
  case True
  show ?thesis
  proof (cases "subscriptionGroups v")
    case FetchFailed
    with True show ?thesis by (simp add: updatePrice_subscriptionId_def)
  next
    case (NotOk st reason)
    with True show ?thesis by (simp add: updatePrice_subscriptionId_def)
  next
    case (Ok groups)
    obtain r reqs where scan: "scanGroups v (iap_productId iapData) groups = (r, reqs)"
      by (cases "scanGroups v (iap_productId iapData) groups")
    with scanGroups_reads_only [of v "iap_productId iapData" groups]
    have "filter isPost reqs = []" by simp
    with True Ok scan show ?thesis
      by (cases r) (simp_all add: updatePrice_subscriptionId_def Let_def)
  qed
qed

lemma updatePrice_writes_once:
  assumes iap: "inAppPurchases v iapId = Ok iapData"
    and sid: "updatePrice_subscriptionId v iapData = (Inr subscriptionId, reqs)"
  shows "filter isPost (snd (updatePrice v c iapId terr pricePointId preserveCurrentPrice))
           = [PostPrices (priceEndpoint (inAppPurchaseType iapData = autoRenewable) iapId)
                (pricePayload (inAppPurchaseType iapData = autoRenewable)
                   (formattedStartDate c) preserveCurrentPrice subscriptionId terr
                   pricePointId)]"
proof -
  have "filter isPost reqs = []"
    using updatePrice_subscriptionId_reads_only [of v iapData] sid by simp
  then show ?thesis
    by (simp add: updatePrice_def iap sid Let_def logged_def split: response.splits)
qed

text \<open>
  Claim C7, as amended. The start date is the UTC calendar date, printed without a
  time of day, of the instant that lies two calendar days after the call at the same
  local time of day of the host; it is the UTC date of the call plus two days when
  the offset of the host from UTC is the same at both instants. A call whose
  resolution succeeds makes exactly one write, and every write that \<open>updatePrice\<close>
  makes is of one of two shapes, by the kind of the product: for a subscription, a
  subscription price sent to the collection of subscription prices, with the start
  date, the \<open>preserveCurrentPrice\<close> flag, the subscription found by the scan and the
  price point; for a one-time purchase, a price sent to the URL of the product, with
  the start date, the territory and the price point, and no flag. The one-time
  purchase is named by the URL only, not by the payload. No call makes more than one
  write.
\<close>

theorem price_update_submission_shape:
  "formattedStartDate c = isoDate (startTime c div msPerDay)
   \<and> CHR ''T'' \<notin> set (formattedStartDate c)
   \<and> (offsetAtLocal c (localTime c + 2 * msPerDay) = offsetAtUTC c (timeValue c)
      \<longrightarrow> formattedStartDate c = isoDate (timeValue c div msPerDay + 2))
   \<and> (inAppPurchases v iapId = Ok iapData
      \<and> updatePrice_subscriptionId v iapData = (Inr sid, reqs)
      \<longrightarrow> filter isPost (snd (updatePrice v c iapId terr pricePointId preserveCurrentPrice))
            = [if inAppPurchaseType iapData = autoRenewable
               then PostPrices (vendorApi @ ''subscriptionPrices'')
                      (SubscriptionPrices (isoDate (startTime c div msPerDay))
                         preserveCurrentPrice sid pricePointId)
               else PostPrices (vendorApi @ ''inAppPurchases/'' @ iapId @ ''/prices'')
                      (InAppPurchasePrices (isoDate (startTime c div msPerDay)) terr
                         pricePointId)])
   \<and> (PostPrices url body \<in> set (snd (updatePrice v c iapId terr pricePointId preserveCurrentPrice))
      \<longrightarrow> (\<exists>iapData subscriptionId reqs.
             inAppPurchases v iapId = Ok iapData
           \<and> updatePrice_subscriptionId v iapData = (Inr subscriptionId, reqs)
           \<and> (if inAppPurchaseType iapData = autoRenewable
              then url = vendorApi @ ''subscriptionPrices''
                 \<and> body = SubscriptionPrices (isoDate (startTime c div msPerDay))
                            preserveCurrentPrice subscriptionId pricePointId
                 \<and> subscriptionId \<noteq> []
              else url = vendorApi @ ''inAppPurchases/'' @ iapId @ ''/prices''
                 \<and> body = InAppPurchasePrices (isoDate (startTime c div msPerDay)) terr
                            pricePointId)))
   \<and> length (filter isPost (snd (updatePrice v c iapId terr pricePointId preserveCurrentPrice))) \<le> 1"
proof (intro conjI impI)
  show day: "formattedStartDate c = isoDate (startTime c div msPerDay)"
    by (rule formattedStartDate_day)
  show "CHR ''T'' \<notin> set (formattedStartDate c)"
    unfolding day by (rule isoDate_no_time)
next
  assume "offsetAtLocal c (localTime c + 2 * msPerDay) = offsetAtUTC c (timeValue c)"
  then show "formattedStartDate c = isoDate (timeValue c div msPerDay + 2)"
    by (simp add: formattedStartDate_day startTime_same_offset)
next
  assume h: "inAppPurchases v iapId = Ok iapData
      \<and> updatePrice_subscriptionId v iapData = (Inr sid, reqs)"
  then have "filter isPost (snd (updatePrice v c iapId terr pricePointId preserveCurrentPrice))
           = [PostPrices (priceEndpoint (inAppPurchaseType iapData = autoRenewable) iapId)
                (pricePayload (inAppPurchaseType iapData = autoRenewable)
                   (formattedStartDate c) preserveCurrentPrice sid terr pricePointId)]"
    by (simp add: updatePrice_writes_once)
  then show "filter isPost (snd (updatePrice v c iapId terr pricePointId preserveCurrentPrice))
            = [if inAppPurchaseType iapData = autoRenewable
               then PostPrices (vendorApi @ ''subscriptionPrices'')
                      (SubscriptionPrices (isoDate (startTime c div msPerDay))
                         preserveCurrentPrice sid pricePointId)
               else PostPrices (vendorApi @ ''inAppPurchases/'' @ iapId @ ''/prices'')
                      (InAppPurchasePrices (isoDate (startTime c div msPerDay)) terr
                         pricePointId)]"
    by (simp add: priceEndpoint_def pricePayload_def formattedStartDate_day)
next
  assume post: "PostPrices url body
                  \<in> set (snd (updatePrice v c iapId terr pricePointId preserveCurrentPrice))"
  show "\<exists>iapData subscriptionId reqs.
             inAppPurchases v iapId = Ok iapData
           \<and> updatePrice_subscriptionId v iapData = (Inr subscriptionId, reqs)
           \<and> (if inAppPurchaseType iapData = autoRenewable
              then url = vendorApi @ ''subscriptionPrices''
                 \<and> body = SubscriptionPrices (isoDate (startTime c div msPerDay))
                            preserveCurrentPrice subscriptionId pricePointId
                 \<and> subscriptionId \<noteq> []
              else url = vendorApi @ ''inAppPurchases/'' @ iapId @ ''/prices''
                 \<and> body = InAppPurchasePrices (isoDate (startTime c div msPerDay)) terr
                            pricePointId)"
  proof (cases "inAppPurchases v iapId")
    case FetchFailed
    with post show ?thesis by (simp add: updatePrice_def)
  next
    case (NotOk st reason)
    with post show ?thesis by (simp add: updatePrice_def)
  next
    case (Ok iapData)
    obtain r reqs where sid: "updatePrice_subscriptionId v iapData = (r, reqs)"
      by (cases "updatePrice_subscriptionId v iapData")
    have "filter isPost reqs = []"
      using updatePrice_subscriptionId_reads_only [of v iapData] sid by simp
    then have reads: "PostPrices url body \<notin> set reqs"
      by (auto simp: filter_empty_conv)
    show ?thesis
    proof (cases r)
      case (Inl e)
      with post Ok sid reads show ?thesis by (simp add: updatePrice_def)
    next
      case (Inr subscriptionId)
      have nonempty: "inAppPurchaseType iapData = autoRenewable \<Longrightarrow> subscriptionId \<noteq> []"
        using sid Inr
        by (auto simp: updatePrice_subscriptionId_def logged_def Let_def
            split: response.splits prod.splits sum.splits if_splits)
      from post Ok sid reads Inr
      have "url = priceEndpoint (inAppPurchaseType iapData = autoRenewable) iapId
          \<and> body = pricePayload (inAppPurchaseType iapData = autoRenewable) (formattedStartDate c)
                     preserveCurrentPrice subscriptionId terr pricePointId"
        by (auto simp: updatePrice_def Let_def logged_def split: response.splits)
      with Ok sid Inr nonempty show ?thesis
        by (auto simp: priceEndpoint_def pricePayload_def formattedStartDate_day)
    qed
  qed
next
  show "length (filter isPost (snd (updatePrice v c iapId terr pricePointId preserveCurrentPrice))) \<le> 1"
  proof (cases "inAppPurchases v iapId")
    case FetchFailed
    then show ?thesis by (simp add: updatePrice_def)
  next
    case (NotOk st reason)
    then show ?thesis by (simp add: updatePrice_def)
  next
    case (Ok iapData)
    obtain r reqs where sid: "updatePrice_subscriptionId v iapData = (r, reqs)"
      by (cases "updatePrice_subscriptionId v iapData")
    have none: "filter isPost reqs = []"
      using updatePrice_subscriptionId_reads_only [of v iapData] sid by simp
    with Ok sid show ?thesis
      by (cases r) (auto simp: updatePrice_def Let_def logged_def split: response.splits)
  qed
qed

lemma leapNoon_day: "startTime leapNoon div msPerDay = 19784"
  by (simp add: startTime_def localTime_def leapNoon_def msPerDay_def)

lemma newYorkEvening_day: "startTime newYorkEvening div msPerDay = 19792"
  by (simp add: startTime_def localTime_def newYorkEvening_def msPerDay_def)

lemma newYorkEvening_utc_day: "timeValue newYorkEvening div msPerDay + 2 = 19793"
  by (simp add: newYorkEvening_def msPerDay_def)

lemma civil_19784: "civilFromDays 19784 = (2024, 3, 2)"
  unfolding civilFromDays_def Let_def by simp

lemma civil_19792: "civilFromDays 19792 = (2024, 3, 10)"
  unfolding civilFromDays_def Let_def by simp

lemma civil_19793: "civilFromDays 19793 = (2024, 3, 11)"
  unfolding civilFromDays_def Let_def by simp

lemma showNat_date:
  "showNat 2024 = ''2024''" "showNat 3 = ''3''" "showNat 2 = ''2''"
  "showNat 10 = ''10''" "showNat 11 = ''11''"
  by (simp_all add: showNat.simps digitChar_def)

lemma isoDate_examples:
  "isoDate 19784 = ''2024-03-02''"
  "isoDate 19792 = ''2024-03-10''"
  "isoDate 19793 = ''2024-03-11''"
  by (simp_all add: isoDate_def civil_19784 civil_19792 civil_19793 isoYear_def pad_def
      showNat_date)

lemma leapNoon_startDate: "formattedStartDate leapNoon = ''2024-03-02''"
  unfolding formattedStartDate_day leapNoon_day by (rule isoDate_examples)

theorem price_update_submission_shape_witness:
  "formattedStartDate leapNoon = ''2024-03-02''
   \<and> offsetAtLocal leapNoon (localTime leapNoon + 2 * msPerDay)
       = offsetAtUTC leapNoon (timeValue leapNoon)
   \<and> isoDate (timeValue leapNoon div msPerDay + 2) = ''2024-03-02''
   \<and> formattedStartDate newYorkEvening = ''2024-03-10''
   \<and> isoDate (timeValue newYorkEvening div msPerDay + 2) = ''2024-03-11''
   \<and> updatePrice plainVendor leapNoon ''monthly'' ''USA'' ''pp1'' True
       = (Inr ''{}'',
          [GetInAppPurchase ''monthly'', GetSubscriptionGroups, GetSubscriptions ''g1'',
           GetSubscriptions ''g2'',
           PostPrices (vendorApi @ ''subscriptionPrices'')
             (SubscriptionPrices ''2024-03-02'' True ''sub-monthly'' ''pp1'')])
   \<and> filter isPost (snd (updatePrice plainVendor leapNoon ''monthly'' ''USA'' ''pp1'' True))
       = [PostPrices (vendorApi @ ''subscriptionPrices'')
            (SubscriptionPrices ''2024-03-02'' True ''sub-monthly'' ''pp1'')]
   \<and> filter isPost (snd (updatePrice plainVendor newYorkEvening ''coins'' ''USA'' ''pp1'' True))
       = [PostPrices (vendorApi @ ''inAppPurchases/coins/prices'')
            (InAppPurchasePrices ''2024-03-10'' ''USA'' ''pp1'')]
   \<and> inAppPurchases plainVendor ''monthly''
       = Ok \<lparr>iap_productId = ''com.app.monthly'', inAppPurchaseType = autoRenewable\<rparr>
   \<and> fst (updatePrice_subscriptionId plainVendor
            \<lparr>iap_productId = ''com.app.monthly'', inAppPurchaseType = autoRenewable\<rparr>)
       = Inr ''sub-monthly''"
proof -
  let ?iap = "\<lparr>iap_productId = ''com.app.monthly'', inAppPurchaseType = autoRenewable\<rparr>"
  let ?coins = "\<lparr>iap_productId = ''com.app.coins'', inAppPurchaseType = ''CONSUMABLE''\<rparr>"
  have iap: "inAppPurchases plainVendor ''monthly'' = Ok ?iap"
    by (simp add: plainVendor_def vendor_simps)
  have sid: "updatePrice_subscriptionId plainVendor ?iap
               = (Inr ''sub-monthly'',
                  [GetSubscriptionGroups, GetSubscriptions ''g1'', GetSubscriptions ''g2''])"
    by (simp add: updatePrice_subscriptionId_def plainVendor_def vendor_simps)
  have coins: "inAppPurchases plainVendor ''coins'' = Ok ?coins"
    by (simp add: plainVendor_def vendor_simps)
  have plain: "inAppPurchaseType ?coins \<noteq> autoRenewable"
    by (simp add: consumable_not_renewable)
  have cid: "updatePrice_subscriptionId plainVendor ?coins = (Inr [], [])"
    using plain by (simp add: updatePrice_subscriptionId_def)
  have same: "offsetAtLocal leapNoon (localTime leapNoon + 2 * msPerDay)
                = offsetAtUTC leapNoon (timeValue leapNoon)"
    by (simp add: leapNoon_def)
  have run: "updatePrice plainVendor leapNoon ''monthly'' ''USA'' ''pp1'' True
       = (Inr ''{}'',
          [GetInAppPurchase ''monthly'', GetSubscriptionGroups, GetSubscriptions ''g1'',
           GetSubscriptions ''g2'',
           PostPrices (vendorApi @ ''subscriptionPrices'')
             (SubscriptionPrices ''2024-03-02'' True ''sub-monthly'' ''pp1'')])"
    by (simp add: updatePrice_def iap sid priceEndpoint_def pricePayload_def leapNoon_startDate)
       (simp add: plainVendor_def vendor_simps)
  have post: "PostPrices (vendorApi @ ''subscriptionPrices'')
                (SubscriptionPrices ''2024-03-02'' True ''sub-monthly'' ''pp1'')
              \<in> set (snd (updatePrice plainVendor leapNoon ''monthly'' ''USA'' ''pp1'' True))"
    by (simp add: run)
  note noon = price_update_submission_shape
    [where c = leapNoon and v = plainVendor and iapId = "''monthly''" and terr = "''USA''"
       and pricePointId = "''pp1''" and preserveCurrentPrice = True and iapData = ?iap
       and sid = "''sub-monthly''"
       and reqs = "[GetSubscriptionGroups, GetSubscriptions ''g1'', GetSubscriptions ''g2'']"
       and url = "vendorApi @ ''subscriptionPrices''"
       and body = "SubscriptionPrices ''2024-03-02'' True ''sub-monthly'' ''pp1''"]
  note evening = price_update_submission_shape
    [where c = newYorkEvening and v = plainVendor and iapId = "''coins''" and terr = "''USA''"
       and pricePointId = "''pp1''" and preserveCurrentPrice = True and iapData = ?coins
       and sid = "[]" and reqs = "[]"]
  have d1: "formattedStartDate leapNoon = ''2024-03-02''"
    using noon [THEN conjunct1] by (simp add: leapNoon_day isoDate_examples)
  have d2: "isoDate (timeValue leapNoon div msPerDay + 2) = ''2024-03-02''"
    using noon [THEN conjunct2, THEN conjunct2, THEN conjunct1, THEN mp, OF same] d1
    by simp
  have d3: "formattedStartDate newYorkEvening = ''2024-03-10''"
    using evening [THEN conjunct1] by (simp add: newYorkEvening_day isoDate_examples)
  have d4: "isoDate (timeValue newYorkEvening div msPerDay + 2) = ''2024-03-11''"
    by (simp add: newYorkEvening_utc_day isoDate_examples)
  have w1: "filter isPost (snd (updatePrice plainVendor leapNoon ''monthly'' ''USA'' ''pp1'' True))
       = [PostPrices (vendorApi @ ''subscriptionPrices'')
            (SubscriptionPrices ''2024-03-02'' True ''sub-monthly'' ''pp1'')]"
    using noon [THEN conjunct2, THEN conjunct2, THEN conjunct2, THEN conjunct1, THEN mp,
        OF conjI [OF iap sid]]
    by (simp add: leapNoon_day isoDate_examples)
  have w2: "filter isPost (snd (updatePrice plainVendor newYorkEvening ''coins'' ''USA'' ''pp1'' True))
       = [PostPrices (vendorApi @ ''inAppPurchases/coins/prices'')
            (InAppPurchasePrices ''2024-03-10'' ''USA'' ''pp1'')]"
    using evening [THEN conjunct2, THEN conjunct2, THEN conjunct2, THEN conjunct1, THEN mp,
        OF conjI [OF coins cid]] plain
    by (simp add: newYorkEvening_day isoDate_examples)
  from noon [THEN conjunct2, THEN conjunct2, THEN conjunct2, THEN conjunct2, THEN conjunct1,
      THEN mp, OF post]
  have w3: "fst (updatePrice_subscriptionId plainVendor ?iap) = Inr ''sub-monthly''"
    by (auto simp: iap)
  from d1 same d2 d3 d4 run w1 w2 iap w3 show ?thesis
    by simp
qed

text \<open>The claim as it was stated fails at the payload of a one-time purchase, which
  does not name the product: the updates of the products \<open>coins\<close> and \<open>gems\<close> send
  the same payload, to different URLs.\<close>

theorem one_time_purchase_payload_omits_product:
  "snd (updatePrice plainVendor leapNoon ''coins'' ''USA'' ''pp1'' True)
     = [GetInAppPurchase ''coins'',
        PostPrices (vendorApi @ ''inAppPurchases/coins/prices'')
          (InAppPurchasePrices ''2024-03-02'' ''USA'' ''pp1'')]
   \<and> snd (updatePrice plainVendor leapNoon ''gems'' ''USA'' ''pp1'' True)
     = [GetInAppPurchase ''gems'',
        PostPrices (vendorApi @ ''inAppPurchases/gems/prices'')
          (InAppPurchasePrices ''2024-03-02'' ''USA'' ''pp1'')]"
  by (simp add: updatePrice_def updatePrice_subscriptionId_def priceEndpoint_def pricePayload_def
      leapNoon_startDate plainVendor_def vendor_simps)

end
